theory Spec2Isabelle
  imports Complex_Main "HOL-Library.AList"
begin

section \<open>Python values and strings\<close>

text \<open>
  A Python \<open>str\<close> is a \<^typ>\<open>string\<close>: the list of the bytes of its UTF-8 encoding.
  Text outside ASCII is written byte by byte. \<open>str.lower()\<close> and \<open>str.upper()\<close> are
  modelled on the ASCII range, where a byte is a code point.
\<close>

text \<open>
  The characters \<open>str.strip()\<close> removes, each as the bytes of its encoding: the code
  points U+0009 to U+000D, U+001C to U+0020, U+0085, U+00A0, U+1680, U+2000 to U+200A,
  U+2028, U+2029, U+202F, U+205F and U+3000.
\<close>

definition whitespace :: "string list" where
  "whitespace =
     [[CHR 0x09], [CHR 0x0A], [CHR 0x0B], [CHR 0x0C], [CHR 0x0D],
      [CHR 0x1C], [CHR 0x1D], [CHR 0x1E], [CHR 0x1F], [CHR 0x20],
      [CHR 0xC2, CHR 0x85], [CHR 0xC2, CHR 0xA0],
      [CHR 0xE1, CHR 0x9A, CHR 0x80],
      [CHR 0xE2, CHR 0x80, CHR 0x80], [CHR 0xE2, CHR 0x80, CHR 0x81],
      [CHR 0xE2, CHR 0x80, CHR 0x82], [CHR 0xE2, CHR 0x80, CHR 0x83],
      [CHR 0xE2, CHR 0x80, CHR 0x84], [CHR 0xE2, CHR 0x80, CHR 0x85],
      [CHR 0xE2, CHR 0x80, CHR 0x86], [CHR 0xE2, CHR 0x80, CHR 0x87],
      [CHR 0xE2, CHR 0x80, CHR 0x88], [CHR 0xE2, CHR 0x80, CHR 0x89],
      [CHR 0xE2, CHR 0x80, CHR 0x8A],
      [CHR 0xE2, CHR 0x80, CHR 0xA8], [CHR 0xE2, CHR 0x80, CHR 0xA9],
      [CHR 0xE2, CHR 0x80, CHR 0xAF],
      [CHR 0xE2, CHR 0x81, CHR 0x9F],
      [CHR 0xE3, CHR 0x80, CHR 0x80]]"

text \<open>
  The number of bytes of the first of the characters \<open>ws\<close> that the text starts with,
  and 0 when it starts with none of them.
\<close>

definition match_len :: "string list \<Rightarrow> string \<Rightarrow> nat" where
  "match_len ws s =
     (case List.find (\<lambda>w. take (length w) s = w) ws of None \<Rightarrow> 0 | Some w \<Rightarrow> length w)"

function drop_chars :: "string list \<Rightarrow> string \<Rightarrow> string" where
  "drop_chars ws s = (if match_len ws s = 0 then s else drop_chars ws (drop (match_len ws s) s))"
  by pat_completeness auto
termination
proof (relation "measure (\<lambda>(ws, s). length s)")
  show "wf (measure (\<lambda>(ws, s). length s))" by simp
next
  fix ws :: "string list" and s :: string
  assume "match_len ws s \<noteq> 0"
  moreover have "match_len ws s \<le> length s"
  proof (cases "List.find (\<lambda>w. take (length w) s = w) ws")
    case None
    then show ?thesis by (simp add: match_len_def)
  next
    case (Some w)
    then have "take (length w) s = w" by (auto simp: find_Some_iff)
    then have "length (take (length w) s) = length w" by simp
    then have "length w \<le> length s" by simp
    with Some show ?thesis by (simp add: match_len_def)
  qed
  ultimately show "((ws, drop (match_len ws s) s), (ws, s)) \<in> measure (\<lambda>(ws, s). length s)"
    by simp
qed

declare drop_chars.simps [simp del]

text \<open>
  \<open>str.strip()\<close>: the whitespace characters at the start go, then those at the end (found
  there by reading the bytes backwards).
\<close>

definition strip :: "string \<Rightarrow> string" where
  "strip s = rev (drop_chars (map rev whitespace) (rev (drop_chars whitespace s)))"

text \<open>The values a decoded JSON document holds.\<close>

datatype pyfloat = Finite rat | PosInf | NegInf | NaN

datatype pyval =
    PNone
  | PBool bool
  | PInt int
  | PFloat pyfloat
  | PStr string
  | PList "pyval list"
  | PDict "(string \<times> pyval) list"

datatype pyexc = ValueError | TypeError | OverflowError | AttributeError

text \<open>Truthiness, as \<open>if v:\<close>, \<open>v or w\<close> and \<open>not v\<close> read a value.\<close>

fun truthy :: "pyval \<Rightarrow> bool" where
  "truthy PNone = False"
| "truthy (PBool b) = b"
| "truthy (PInt i) = (i \<noteq> 0)"
| "truthy (PFloat f) = (f \<noteq> Finite 0)"
| "truthy (PStr s) = (s \<noteq> [])"
| "truthy (PList l) = (l \<noteq> [])"
| "truthy (PDict d) = (d \<noteq> [])"

definition py_or :: "pyval \<Rightarrow> pyval \<Rightarrow> pyval" where
  "py_or a b = (if truthy a then a else b)"

text \<open>\<open>d.get(k)\<close> and \<open>d.get(k, default)\<close> on a dict with string keys.\<close>

definition py_get :: "(string \<times> pyval) list \<Rightarrow> string \<Rightarrow> pyval" where
  "py_get d k = (case map_of d k of None \<Rightarrow> PNone | Some v \<Rightarrow> v)"

definition py_get_default :: "(string \<times> pyval) list \<Rightarrow> string \<Rightarrow> pyval \<Rightarrow> pyval" where
  "py_get_default d k dflt = (case map_of d k of None \<Rightarrow> dflt | Some v \<Rightarrow> v)"

definition digit_char :: "nat \<Rightarrow> char" where
  "digit_char n = ''0123456789'' ! (n mod 10)"

function str_nat :: "nat \<Rightarrow> string" where
  "str_nat n = (if n < 10 then [digit_char n] else str_nat (n div 10) @ [digit_char n])"
  by pat_completeness auto
termination
  by (relation "measure id") auto

definition str_int :: "int \<Rightarrow> string" where
  "str_int i = (if i < 0 then CHR ''-'' # str_nat (nat (- i)) else str_nat (nat i))"

definition is_digit :: "char \<Rightarrow> bool" where
  "is_digit c = (let n = (of_char c :: nat) in 48 \<le> n \<and> n \<le> 57)"

definition is_lower :: "char \<Rightarrow> bool" where
  "is_lower c = (let n = (of_char c :: nat) in 97 \<le> n \<and> n \<le> 122)"

definition is_upper :: "char \<Rightarrow> bool" where
  "is_upper c = (let n = (of_char c :: nat) in 65 \<le> n \<and> n \<le> 90)"

definition lower :: "string \<Rightarrow> string" where
  "lower s = map (\<lambda>c. if is_upper c then char_of (of_char c + (32::nat)) else c) s"

definition upper :: "string \<Rightarrow> string" where
  "upper s = map (\<lambda>c. if is_lower c then char_of (of_char c - (32::nat)) else c) s"

text \<open>
  \<open>int(v)\<close>. A string is read in base 10: blanks around it (the C \<open>isspace\<close> set, which
  is narrower than the one of \<open>str.strip()\<close>), a sign, and digits that single underscores
  may separate. A float is truncated towards zero; an infinity raises \<open>OverflowError\<close>,
  a NaN \<open>ValueError\<close>. The digit limit of recent interpreters is not modelled.
\<close>

definition is_c_space :: "char \<Rightarrow> bool" where
  "is_c_space c = (let n = (of_char c :: nat) in (9 \<le> n \<and> n \<le> 13) \<or> n = 32)"

fun digits_ok :: "string \<Rightarrow> bool" where
  "digits_ok [] = False"
| "digits_ok [c] = is_digit c"
| "digits_ok (c # d # cs) =
     (if is_digit c then digits_ok (d # cs)
      else c = CHR ''_'' \<and> is_digit d \<and> digits_ok (d # cs))"

definition digits_value :: "string \<Rightarrow> nat" where
  "digits_value s = foldl (\<lambda>acc c. 10 * acc + (of_char c - 48)) 0 (filter is_digit s)"

definition int_of_str :: "string \<Rightarrow> int option" where
  "int_of_str s =
     (let t = rev (dropWhile is_c_space (rev (dropWhile is_c_space s)));
          neg = (t \<noteq> [] \<and> hd t = CHR ''-'');
          body = (if t \<noteq> [] \<and> (hd t = CHR ''-'' \<or> hd t = CHR ''+'') then tl t else t)
      in if body \<noteq> [] \<and> is_digit (hd body) \<and> digits_ok body
         then Some (if neg then - int (digits_value body) else int (digits_value body))
         else None)"

definition trunc_rat :: "rat \<Rightarrow> int" where
  "trunc_rat q = (if q \<ge> 0 then \<lfloor>q\<rfloor> else \<lceil>q\<rceil>)"

fun py_int :: "pyval \<Rightarrow> pyexc + int" where
  "py_int PNone = Inl TypeError"
| "py_int (PBool b) = Inr (if b then 1 else 0)"
| "py_int (PInt i) = Inr i"
| "py_int (PFloat (Finite q)) = Inr (trunc_rat q)"
| "py_int (PFloat PosInf) = Inl OverflowError"
| "py_int (PFloat NegInf) = Inl OverflowError"
| "py_int (PFloat NaN) = Inl ValueError"
| "py_int (PStr s) = (case int_of_str s of None \<Rightarrow> Inl ValueError | Some i \<Rightarrow> Inr i)"
| "py_int (PList l) = Inl TypeError"
| "py_int (PDict d) = Inl TypeError"

text \<open>
  Floats. A finite double is held as the rational it denotes. The code multiplies by powers
  of two only, which is exact on doubles short of overflow; a product of magnitude
  \<open>2^1024\<close> or more becomes an infinity. \<open>float(str)\<close> is given by the environment
  (\<open>None\<close> for \<open>ValueError\<close>); \<open>float(int)\<close> raises \<open>OverflowError\<close> from
  \<open>2^1024 - 2^970\<close> on, and the rounding of a large integer to the nearest double is not
  modelled. \<open>round(x)\<close> rounds half to even.
\<close>

definition mk_float :: "rat \<Rightarrow> pyfloat" where
  "mk_float q = (if q \<ge> 2 ^ 1024 then PosInf else if q \<le> - (2 ^ 1024) then NegInf else Finite q)"

fun fmul :: "pyfloat \<Rightarrow> rat \<Rightarrow> pyfloat" where
  "fmul (Finite q) m = mk_float (q * m)"
| "fmul PosInf m = PosInf"
| "fmul NegInf m = NegInf"
| "fmul NaN m = NaN"

fun f_le_zero :: "pyfloat \<Rightarrow> bool" where
  "f_le_zero (Finite q) = (q \<le> 0)"
| "f_le_zero PosInf = False"
| "f_le_zero NegInf = True"
| "f_le_zero NaN = False"

definition round_half_even :: "rat \<Rightarrow> int" where
  "round_half_even q =
     (let fl = \<lfloor>q\<rfloor>; d = q - of_int fl
      in if d < 1 / 2 then fl else if d > 1 / 2 then fl + 1
         else if even fl then fl else fl + 1)"

fun py_round :: "pyfloat \<Rightarrow> pyexc + int" where
  "py_round (Finite q) = Inr (round_half_even q)"
| "py_round PosInf = Inl OverflowError"
| "py_round NegInf = Inl OverflowError"
| "py_round NaN = Inl ValueError"

fun py_float :: "(string \<Rightarrow> pyfloat option) \<Rightarrow> pyval \<Rightarrow> pyexc + pyfloat" where
  "py_float fs PNone = Inl TypeError"
| "py_float fs (PBool b) = Inr (Finite (if b then 1 else 0))"
| "py_float fs (PInt i) =
     (if \<bar>i\<bar> \<ge> 2 ^ 1024 - 2 ^ 970 then Inl OverflowError else Inr (Finite (of_int i)))"
| "py_float fs (PFloat f) = Inr f"
| "py_float fs (PStr s) = (case fs s of None \<Rightarrow> Inl ValueError | Some f \<Rightarrow> Inr f)"
| "py_float fs (PList l) = Inl TypeError"
| "py_float fs (PDict d) = Inl TypeError"

text \<open>
  \<open>str(v)\<close>: a string is itself, an integer its decimal digits; the text of a float or a
  container is given by the environment (\<open>repr\<close>).
\<close>

fun py_str :: "(pyval \<Rightarrow> string) \<Rightarrow> pyval \<Rightarrow> string" where
  "py_str rp PNone = ''None''"
| "py_str rp (PBool b) = (if b then ''True'' else ''False'')"
| "py_str rp (PInt i) = str_int i"
| "py_str rp (PStr s) = s"
| "py_str rp v = rp v"

text \<open>\<open>sub in s\<close> on strings, \<open>sep.join(xs)\<close>, \<open>s.strip(c)\<close>.\<close>

fun contains :: "string \<Rightarrow> string \<Rightarrow> bool" where
  "contains [] sub = (sub = [])"
| "contains (c # cs) sub = (take (length sub) (c # cs) = sub \<or> contains cs sub)"

fun join :: "string \<Rightarrow> string list \<Rightarrow> string" where
  "join sep [] = []"
| "join sep [x] = x"
| "join sep (x # y # xs) = x @ sep @ join sep (y # xs)"

definition strip_char :: "char \<Rightarrow> string \<Rightarrow> string" where
  "strip_char c s = rev (dropWhile (\<lambda>x. x = c) (rev (dropWhile (\<lambda>x. x = c) s)))"

definition or_default :: "string \<Rightarrow> string \<Rightarrow> string" where
  "or_default s d = (if s = [] then d else s)"

definition quote :: "string \<Rightarrow> string" where
  "quote s = [CHR 0x27] @ s @ [CHR 0x27]"

section \<open>tab\_models.py\<close>

text \<open>\<open>TabStatus\<close>: the status of a Tab is stored as the enum's string value.\<close>

definition IDLE :: string where "IDLE = ''idle''"
definition STARTING :: string where "STARTING = ''starting''"
definition RUNNING :: string where "RUNNING = ''running''"
definition COMPLETED :: string where "COMPLETED = ''completed''"
definition FAILED :: string where "FAILED = ''failed''"
definition CANCELLED :: string where "CANCELLED = ''cancelled''"

record LogEntry =
  seq :: int
  timestamp :: string
  message :: string
  tab_id :: string
  interface_l :: "string option"

record Run =
  id_r :: string
  profile_id_r :: pyval
  started_utc :: string
  finished_utc :: "string option"
  exit_code :: "int option"
  exit_codes :: "int option list option"
  cancelled :: bool
  error :: "string option"
  commands :: "string list option"
  filenames_bases :: "string list option"
  capture_ids :: "string list option"
  main_capture_id :: "string option"
  pids :: "int list option"
  interfaces :: "string list option"
  ring_file_size_mb :: "int option"
  ring_file_count :: "int option"
  bpf_filter :: "string option"
  command :: "string option"
  filename_base :: "string option"
  capture_id :: "string option"
  pid :: "int option"
  interface :: "string option"

text \<open>\<open>Run(id=..., profile_id=..., started_utc=...)\<close>: every other field at its default.\<close>

definition new_Run :: "string \<Rightarrow> pyval \<Rightarrow> string \<Rightarrow> Run" where
  "new_Run i p st =
     \<lparr> id_r = i, profile_id_r = p, started_utc = st, finished_utc = None,
       exit_code = None, exit_codes = None, cancelled = False, error = None,
       commands = None, filenames_bases = None, capture_ids = None,
       main_capture_id = None, pids = None, interfaces = None,
       ring_file_size_mb = None, ring_file_count = None, bpf_filter = None,
       command = None, filename_base = None, capture_id = None, pid = None,
       interface = None \<rparr>"

record Tab =
  id_t :: string
  title :: string
  status :: string
  created_utc :: string
  updated_utc :: string
  profile_id_t :: "string option"
  run :: "Run option"
  logs :: "LogEntry list"
  log_seq :: int
  last_message :: "string option"
  profile :: "pyval option"

text \<open>
  \<open>collections.deque(maxlen=m).append(x)\<close>: when the deque is full the oldest entry is
  discarded from the left; a deque of maximum length 0 stays empty.
\<close>

definition deque_append :: "nat \<Rightarrow> 'a list \<Rightarrow> 'a \<Rightarrow> 'a list" where
  "deque_append m xs x =
     (if m = 0 then []
      else if length xs \<ge> m then drop (Suc (length xs) - m) (xs @ [x])
      else xs @ [x])"

section \<open>process\_manager.py: the data\<close>

datatype signal = SIGTERM | SIGKILL

text \<open>
  What \<open>process.terminate()\<close> and \<open>process.kill()\<close> can do: return, or raise
  \<open>ProcessLookupError\<close> or \<open>PermissionError\<close> (with the text of the exception), the two
  errors of the underlying \<open>kill(2)\<close>.
\<close>

datatype signal_outcome = SigOk | SigProcessLookupError | SigPermissionError string

text \<open>
  An \<open>asyncio.subprocess.Process\<close> as far as the code reads it: its pid, its return code
  (\<open>None\<close> while it runs) and the signal calls made on it so far, with their outcomes.
\<close>

record process_obj =
  p_pid :: int
  returncode :: "int option"
  signals :: "(signal \<times> signal_outcome) list"

text \<open>
  Objects that are shared and mutated live in a store: a process is a handle into
  \<open>procs\<close>, a watcher task a handle into \<open>tasks\<close>.
\<close>

record InterfaceProcess =
  process :: nat
  task :: "nat option"
  filename_base_p :: string
  interface_p :: string
  capture_id_p :: string
  pid_p :: int

record RunningTest =
  run_id :: string
  interfaces_rt :: "string list"
  ring_file_size_mb_rt :: int
  ring_file_count_rt :: int
  bpf_filter_rt :: string
  processes :: "InterfaceProcess list"
  test_metadata_file :: "string option"

text \<open>
  A watcher task created by \<open>start_test\<close>: the arguments of \<open>_watch_and_handle_exit\<close> and
  whether the task is still pending, has finished, or was cancelled.
\<close>

datatype task_status = TaskPending | TaskDone | TaskCancelled

record watcher_task =
  t_status :: task_status
  t_tab_id :: string
  t_run_id :: string
  t_iproc :: InterfaceProcess

section \<open>The state of the engine and its environment\<close>

text \<open>What \<open>asyncio.create_subprocess_exec\<close> can do: give a process with a pid, or raise.\<close>

datatype spawn_result =
    Spawned int
  | SpawnFileNotFoundError string
  | SpawnPermissionError string
  | SpawnOSError string
  | SpawnException string

text \<open>
  The environment holds what the code reads from outside: the clock behind
  \<open>utcnow_iso()\<close>, the generator behind \<open>uuid4()\<close>, the operating system (spawning,
  signalling and waiting for processes), the constructor arguments, and the library
  functions whose results the code only passes on (\<open>shlex\<close>, \<open>pathlib\<close>, the decimal
  reading of \<open>float(str)\<close>, \<open>str()\<close> of floats and containers, and the text
  \<open>str(exc)\<close> of an exception a built-in function raised).
  A read of the clock, the generator or the operating system takes the value the oracle
  gives for the current tick and advances the tick, so two reads may differ.
\<close>

record env =
  utcnow :: "nat \<Rightarrow> string"
  uuid4 :: "nat \<Rightarrow> string"
  spawn :: "nat \<Rightarrow> pyval list \<Rightarrow> spawn_result"
  signal_result :: "nat \<Rightarrow> nat \<Rightarrow> signal \<Rightarrow> signal_outcome"
  wait_result :: "nat \<Rightarrow> nat \<Rightarrow> int option"
  max_log_entries :: nat
  capture_dir :: string
  tcpdump_bin :: string
  float_of_str :: "string \<Rightarrow> pyfloat option"
  shlex_split :: "string \<Rightarrow> string list option"
  shlex_join :: "string list \<Rightarrow> string"
  path_join :: "string \<Rightarrow> string \<Rightarrow> string"
  path_meta_csv :: "string \<Rightarrow> string"
  py_repr :: "pyval \<Rightarrow> string"
  exc_text :: "pyexc \<Rightarrow> string"

text \<open>The events of the broadcast bus.\<close>

datatype event =
    TabCreated Tab
  | TabUpdated Tab
  | TabDeleted string
  | LogEntryEvent string LogEntry
  | ServerShutdown

text \<open>
  \<open>tabs\<close> is \<open>TabManager._tabs\<close>, a dict in insertion order; \<open>tabs_file\<close> is the snapshot
  last written to \<open>tabs.json\<close> (\<open>Tab.to_dict()\<close> of every tab, kept as the records);
  \<open>runs\<close> is \<open>RunExecutor._runs\<close>; \<open>journal\<close> holds the rows given to
  \<open>write_capture_metadata\<close> with the per-test file each was also written to;
  \<open>listeners\<close> are the subscriber queues of the facade, each with what it holds;
  \<open>timers\<close> are the pending \<open>_auto_stop_after_duration\<close> tasks (tab, run, seconds).
\<close>

record state =
  ticks :: nat
  tabs :: "(string \<times> Tab) list"
  tabs_file :: "Tab list option"
  runs :: "(string \<times> RunningTest) list"
  procs :: "process_obj list"
  tasks :: "watcher_task list"
  journal :: "((string \<times> pyval) list \<times> string option) list"
  listeners :: "(nat \<times> event list) list"
  timers :: "(string \<times> string \<times> pyval) list"

definition utcnow_iso :: "env \<Rightarrow> state \<Rightarrow> string \<times> state" where
  "utcnow_iso E s = (utcnow E (ticks s), s\<lparr>ticks := Suc (ticks s)\<rparr>)"

definition uuid4_hex :: "env \<Rightarrow> state \<Rightarrow> string \<times> state" where
  "uuid4_hex E s = (uuid4 E (ticks s), s\<lparr>ticks := Suc (ticks s)\<rparr>)"

datatype error =
    TabNotFoundError string
  | TestAlreadyRunningError string
  | TestExecutionError string
  | InvalidConfigurationError string
  | PyError pyexc

section \<open>filter\_builder.py\<close>

definition protocol_map :: "(string \<times> string) list" where
  "protocol_map =
     [(''tcp'', ''tcp''), (''udp'', ''udp''), (''icmp'', ''icmp''), (''arp'', ''arp''),
      (''ip'', ''ip''), (''ip6'', ''ip6''),
      (''TCP'', ''tcp''), (''UDP'', ''udp''), (''ICMP'', ''icmp''), (''ARP'', ''arp''),
      (''PTP'', ''udp port 319 or udp port 320''), (''PROFINET'', ''ether proto 0x8892'')]"

fun translate_protocols :: "pyval list \<Rightarrow> string list" where
  "translate_protocols [] = []"
| "translate_protocols (PStr item # items) =
     (let key = strip item;
          mapped = (case map_of protocol_map key of
                      Some m \<Rightarrow> Some m
                    | None \<Rightarrow> map_of protocol_map (upper key))
      in case mapped of
           Some m \<Rightarrow> m # translate_protocols items
         | None \<Rightarrow> (if key \<noteq> [] then lower key # translate_protocols items
                    else translate_protocols items))"
| "translate_protocols (item # items) = translate_protocols items"

text \<open>\<open>int(v)\<close> inside \<open>try: ... except (TypeError, ValueError)\<close>: another error gets through.\<close>

definition int_or_none :: "pyval \<Rightarrow> pyexc + int option" where
  "int_or_none v =
     (case py_int v of
        Inr i \<Rightarrow> Inr (Some i)
      | Inl TypeError \<Rightarrow> Inr None
      | Inl ValueError \<Rightarrow> Inr None
      | Inl e \<Rightarrow> Inl e)"

definition tsn_filters :: "(string \<times> pyval) list \<Rightarrow> string list" where
  "tsn_filters settings =
     (let capture_tsn_sync = truthy (py_or (py_get settings ''captureTsnSync'') (py_get settings ''tsn8021as''));
          capture_ptp = truthy (py_or (py_get settings ''capturePtp'') (py_get settings ''ptpStatus''));
          capture_vlan = truthy (py_or (py_get settings ''captureVlanTagged'') (py_get settings ''qbuPreemption''))
      in if capture_tsn_sync \<and> capture_ptp then
           (if capture_vlan then [''(vlan and ether proto 0x88f7)'']
            else [''(ether proto 0x88f7 or (udp port 319 or udp port 320))''])
         else if capture_tsn_sync then
           (if capture_vlan then [''(vlan and ether proto 0x88f7)''] else [''ether proto 0x88f7''])
         else if capture_ptp then [''(udp port 319 or udp port 320)'']
         else if capture_vlan then [''vlan'']
         else [])"

definition build_bpf_filter :: "(string \<times> pyval) list \<Rightarrow> pyexc + string" where
  "build_bpf_filter settings =
     (let protocols_raw = py_or (py_get settings ''filterProtocols'') (py_get settings ''protocols'');
          f1 = (case protocols_raw of
                  PList items \<Rightarrow>
                    (let translated = translate_protocols items
                     in if translated \<noteq> [] then [''('' @ join '' or '' translated @ '')''] else [])
                | _ \<Rightarrow> []);
          host_filter = py_or (py_get settings ''filterHosts'') (py_get settings ''macIpFilter'');
          f2 = (case host_filter of
                  PStr h \<Rightarrow> (if strip h \<noteq> [] then [''host '' @ strip h] else [])
                | _ \<Rightarrow> []);
          f3 = (case py_get settings ''filterPorts'' of
                  PStr pf \<Rightarrow> (if strip pf \<noteq> [] then [''port '' @ strip pf] else [])
                | _ \<Rightarrow> []);
          vlan_id = py_or (py_get settings ''filterVlanId'') (py_get settings ''vlanId'')
      in case int_or_none vlan_id of
           Inl e \<Rightarrow> Inl e
         | Inr vlan_int \<Rightarrow>
             (let f4 = (case vlan_int of
                          Some v \<Rightarrow> (if v \<noteq> 0 \<and> v > 0 then [''vlan '' @ str_int v] else [])
                        | None \<Rightarrow> []);
                  f5 = tsn_filters settings;
                  tsn_priority = py_get settings ''tsnPriorityFilter''
              in case (if tsn_priority \<noteq> PNone then int_or_none tsn_priority else Inr None) of
                   Inl e \<Rightarrow> Inl e
                 | Inr prio' \<Rightarrow>
                     (let f6 = (case prio' of
                                  Some prio \<Rightarrow>
                                    (if 0 \<le> prio \<and> prio \<le> 7
                                     then [''vlan and ether[14:2] & 0xe000 = '' @ str_int (prio * 8192)]
                                     else [])
                                | None \<Rightarrow> []);
                          f7 = (case py_get settings ''bpfFilter'' of
                                  PStr cf \<Rightarrow> (if strip cf \<noteq> [] then [''('' @ strip cf @ '')''] else [])
                                | _ \<Rightarrow> [])
                      in Inr (join '' and '' (f1 @ f2 @ f3 @ f4 @ f5 @ f6 @ f7)))))"

definition bpf_keywords :: "string list" where
  "bpf_keywords =
     [''host'', ''net'', ''port'', ''src'', ''dst'', ''and'', ''or'', ''not'',
      ''tcp'', ''udp'', ''icmp'', ''ip'', ''ip6'', ''arp'', ''ether'', ''vlan'',
      ''portrange'', ''proto'', ''broadcast'', ''multicast'', ''less'', ''greater'']"

definition validate_bpf_filter :: "string \<Rightarrow> bool" where
  "validate_bpf_filter bpf =
     (let f = strip bpf
      in if f = [] \<or> length f > 1000 then False
         else if count_list f (CHR ''('') \<noteq> count_list f (CHR '')'') then False
         else list_ex (contains (lower f)) bpf_keywords \<or> list_ex is_digit f)"

text \<open>
  \<open>re.match(r'^[a-zA-Z0-9._-]+$', name)\<close>: \<open>$\<close> also matches before a final newline.
\<close>

definition is_iface_char :: "char \<Rightarrow> bool" where
  "is_iface_char c = (is_lower c \<or> is_upper c \<or> is_digit c \<or> c = CHR ''.'' \<or> c = CHR ''_'' \<or> c = CHR ''-'')"

definition validate_interface_name :: "string \<Rightarrow> bool" where
  "validate_interface_name name =
     (if name = [] \<or> length name > 15 then False
      else (let core = (if last name = CHR 0x0A then butlast name else name)
            in core \<noteq> [] \<and> list_all is_iface_char core))"

section \<open>run\_executor.py: build and validation\<close>

definition DEFAULT_INTERFACE :: string where "DEFAULT_INTERFACE = ''eth0''"
definition DEFAULT_RING_FILE_SIZE_MB :: int where "DEFAULT_RING_FILE_SIZE_MB = 100"
definition DEFAULT_RING_FILE_COUNT :: int where "DEFAULT_RING_FILE_COUNT = 10"
definition DEFAULT_HEADER_SNAPLEN :: int where "DEFAULT_HEADER_SNAPLEN = 96"
definition DEFAULT_BUFFER_SIZE_KB :: int where "DEFAULT_BUFFER_SIZE_KB = 2"

definition ue :: string where "ue = [CHR 0xC3, CHR 0xBC]"
definition oe :: string where "oe = [CHR 0xC3, CHR 0xB6]"
definition ae :: string where "ae = [CHR 0xC3, CHR 0xA4]"
definition ellipsis :: string where "ellipsis = [CHR 0xE2, CHR 0x80, CHR 0xA6]"
definition emdash :: string where "emdash = [CHR 0xE2, CHR 0x80, CHR 0x94]"

text \<open>\<open>slugify\<close> of \<open>tab_models.py\<close>: lower case, every run outside \<open>[a-z0-9]\<close> becomes one \<open>_\<close>.\<close>

fun slug_clean :: "bool \<Rightarrow> string \<Rightarrow> string" where
  "slug_clean in_run [] = []"
| "slug_clean in_run (c # cs) =
     (if is_lower c \<or> is_digit c then c # slug_clean False cs
      else if in_run then slug_clean True cs
      else CHR ''_'' # slug_clean True cs)"

definition slugify :: "string \<Rightarrow> string" where
  "slugify v = or_default (strip_char (CHR ''_'') (slug_clean False (lower v))) ''capture''"

text \<open>The loop over \<open>settings["interfaces"]\<close>, with the warnings it appends.\<close>

fun select_from_list :: "pyval list \<Rightarrow> string list \<times> string list" where
  "select_from_list [] = ([], [])"
| "select_from_list (PStr i # is) =
     (let (sel, ws) = select_from_list is
      in if strip i \<noteq> [] then
           (if validate_interface_name (strip i) then (strip i # sel, ws)
            else (sel, (''Ung'' @ ue @ ''ltiger Interface-Name '' @ quote (strip i) @ '' ignoriert.'') # ws))
         else (sel, ws))"
| "select_from_list (i # is) = select_from_list is"

definition select_interfaces :: "(string \<times> pyval) list \<Rightarrow> string list \<Rightarrow> string list \<times> string list" where
  "select_interfaces settings warnings =
     (let (selected, ws) = (case py_get settings ''interfaces'' of
                              PList is \<Rightarrow> select_from_list is
                            | _ \<Rightarrow> ([], []));
          warnings1 = warnings @ ws
      in if selected \<noteq> [] then (selected, warnings1)
         else
           (let manual = (case py_get settings ''interface'' of
                            PStr m \<Rightarrow> (if strip m \<noteq> [] then Some (strip m) else None)
                          | _ \<Rightarrow> None);
                dflt = ''Kein Interface angegeben, verwende '' @ DEFAULT_INTERFACE @ ''.''
            in case manual of
                 Some iface \<Rightarrow>
                   (if validate_interface_name iface then ([iface], warnings1)
                    else ([DEFAULT_INTERFACE],
                          warnings1 @ [''Ung'' @ ue @ ''ltiger Interface-Name '' @ quote iface
                                        @ '', verwende '' @ DEFAULT_INTERFACE @ ''.'', dflt]))
               | None \<Rightarrow> ([DEFAULT_INTERFACE], warnings1 @ [dflt])))"

definition coerce_positive_int ::
  "pyval \<Rightarrow> int \<Rightarrow> int \<Rightarrow> string \<Rightarrow> string list \<Rightarrow> pyexc + (int \<times> string list)" where
  "coerce_positive_int v dflt minimum field warnings =
     (case int_or_none v of
        Inl e \<Rightarrow> Inl e
      | Inr None \<Rightarrow>
          Inr (dflt, warnings @ [field @ '' ung'' @ ue @ ''ltig, verwende '' @ str_int dflt @ ''.''])
      | Inr (Some ivalue) \<Rightarrow>
          (if ivalue < minimum then
             Inr (dflt, warnings @ [field @ '' zu klein ('' @ str_int ivalue @ ''), verwende ''
                                      @ str_int dflt @ ''.''])
           else Inr (ivalue, warnings)))"

text \<open>
  \<open>unit_multipliers.get(size_unit, 1)\<close>: a list or a dict as key is unhashable and raises
  \<open>TypeError\<close>.
\<close>

definition unit_multiplier :: "pyval \<Rightarrow> pyexc + rat" where
  "unit_multiplier u =
     (case u of
        PStr n \<Rightarrow> Inr (if n = ''bytes'' then 1 / (1024 * 1024)
                        else if n = ''kilobytes'' then 1 / 1024
                        else if n = ''megabytes'' then 1
                        else if n = ''gigabytes'' then 1024
                        else 1)
      | PList l \<Rightarrow> Inl TypeError
      | PDict d \<Rightarrow> Inl TypeError
      | _ \<Rightarrow> Inr 1)"

definition ring_invalid :: "string list \<Rightarrow> int \<times> string list" where
  "ring_invalid warnings =
     (DEFAULT_RING_FILE_SIZE_MB,
      warnings @ [''Ringpuffergr'' @ oe @ [CHR 0xC3, CHR 0x9F] @ ''e ung'' @ ue @ ''ltig, verwende ''
                    @ str_int DEFAULT_RING_FILE_SIZE_MB @ '' MB.''])"

definition calculate_ring_file_size_mb ::
  "env \<Rightarrow> (string \<times> pyval) list \<Rightarrow> string list \<Rightarrow> pyexc + (int \<times> string list)" where
  "calculate_ring_file_size_mb E settings warnings =
     (let size_value = py_get settings ''ringFileSizeValue'';
          size_unit = py_get_default settings ''ringFileSizeUnit'' (PStr ''megabytes'')
      in if size_value \<noteq> PNone then
           (case py_float (float_of_str E) size_value of
              Inl TypeError \<Rightarrow> Inr (ring_invalid warnings)
            | Inl ValueError \<Rightarrow> Inr (ring_invalid warnings)
            | Inl e \<Rightarrow> Inl e
            | Inr v \<Rightarrow>
                (if f_le_zero v then
                   Inr (DEFAULT_RING_FILE_SIZE_MB,
                        warnings @ [''Ringpuffergr'' @ oe @ [CHR 0xC3, CHR 0x9F]
                                      @ ''e muss positiv sein, verwende ''
                                      @ str_int DEFAULT_RING_FILE_SIZE_MB @ '' MB.''])
                 else
                   (case unit_multiplier size_unit of
                      Inl e \<Rightarrow> Inr (ring_invalid warnings)
                    | Inr multiplier \<Rightarrow>
                        (case py_round (fmul v multiplier) of
                           Inl ValueError \<Rightarrow> Inr (ring_invalid warnings)
                         | Inl TypeError \<Rightarrow> Inr (ring_invalid warnings)
                         | Inl e \<Rightarrow> Inl e
                         | Inr r \<Rightarrow> Inr (max 1 r, warnings)))))
         else
           (let legacy_mb = py_get settings ''ringFileSizeMB''
            in if legacy_mb \<noteq> PNone then
                 coerce_positive_int legacy_mb DEFAULT_RING_FILE_SIZE_MB 1
                   (''Ringpuffergr'' @ oe @ [CHR 0xC3, CHR 0x9F] @ ''e'') warnings
               else Inr (DEFAULT_RING_FILE_SIZE_MB, warnings)))"

definition determine_snap_length ::
  "(string \<times> pyval) list \<Rightarrow> string list \<Rightarrow> pyexc + (int \<times> string list)" where
  "determine_snap_length settings warnings =
     (if truthy (py_get settings ''headerOnly'') then
        coerce_positive_int (py_get settings ''headerSnaplen'') DEFAULT_HEADER_SNAPLEN 64
          ''Header-Snaplen'' warnings
      else if truthy (py_get settings ''snapLength'') then
        (case py_int (py_get_default settings ''snapLength'' (PInt 0)) of
           Inl e \<Rightarrow> Inl e
         | Inr n \<Rightarrow> Inr (n, warnings))
      else Inr (0, warnings))"

text \<open>\<open>buffer_size != DEFAULT_BUFFER_SIZE_KB\<close>: a value compared with the integer 2.\<close>

fun py_ne_int :: "pyval \<Rightarrow> int \<Rightarrow> bool" where
  "py_ne_int (PInt i) n = (i \<noteq> n)"
| "py_ne_int (PBool b) n = ((if b then 1 else 0) \<noteq> n)"
| "py_ne_int (PFloat f) n = (f \<noteq> Finite (of_int n))"
| "py_ne_int v n = True"

definition build_tcpdump_command ::
  "env \<Rightarrow> string \<Rightarrow> (string \<times> pyval) list \<Rightarrow> string \<Rightarrow> int \<Rightarrow> int \<Rightarrow> int \<Rightarrow> string
     \<Rightarrow> pyexc + pyval list" where
  "build_tcpdump_command E iface settings fbase snap_length ring_mb ring_count bpf =
     (let c0 = [PStr (tcpdump_bin E), PStr ''-i'', PStr iface, PStr ''-nn''];
          c1 = c0 @ (if truthy (py_get settings ''printLinkLevelHeader'') then [PStr ''-e''] else []);
          c2 = c1 @ (if snap_length > 0 then [PStr ''-s'', PStr (str_int snap_length)]
                     else [PStr ''-s'', PStr ''0'']);
          buffer_size = py_get_default settings ''bufferSize'' (PInt DEFAULT_BUFFER_SIZE_KB)
      in case (if truthy buffer_size \<and> py_ne_int buffer_size DEFAULT_BUFFER_SIZE_KB
               then (case py_int buffer_size of
                       Inl e \<Rightarrow> Inl e
                     | Inr n \<Rightarrow> Inr [PStr ''-B'', PStr (str_int (n * 1024))])
               else Inr []) of
           Inl e \<Rightarrow> Inl e
         | Inr bflag \<Rightarrow>
             (let c3 = c2 @ bflag;
                  c4 = c3 @ (if py_get settings ''timestampPrecision'' = PStr ''nano''
                             then [PStr ''--time-stamp-precision=nano''] else []);
                  c5 = c4 @ (if truthy (py_get settings ''immediateMode'')
                             then [PStr ''--immediate-mode''] else []);
                  c6 = c5 @ (if \<not> truthy (py_get_default settings ''promiscuousMode'' (PBool True))
                             then [PStr ''-p''] else []);
                  c7 = c6 @ (if truthy (py_get settings ''filterDirection'')
                             then [PStr ''-Q'', py_get settings ''filterDirection''] else []);
                  c8 = c7 @ [PStr ''-w'', PStr fbase, PStr ''-C'', PStr (str_int ring_mb),
                             PStr ''-W'', PStr (str_int ring_count)];
                  c9 = c8 @ (if truthy (py_get settings ''stopPacketCount'')
                             then [PStr ''-c'', PStr (py_str (py_repr E) (py_get settings ''stopPacketCount''))]
                             else [])
              in if bpf \<noteq> [] then
                   (case shlex_split E bpf of
                      None \<Rightarrow> Inl ValueError
                    | Some toks \<Rightarrow> Inr (c9 @ map PStr toks))
                 else Inr c9))"

record interface_context =
  command_c :: "pyval list"
  command_display :: string
  interface_c :: string
  filename_base_c :: string

fun build_interface_commands ::
  "env \<Rightarrow> string list \<Rightarrow> (string \<times> pyval) list \<Rightarrow> string \<Rightarrow> string \<Rightarrow> int \<Rightarrow> int \<Rightarrow> int
     \<Rightarrow> string \<Rightarrow> pyexc + interface_context list" where
  "build_interface_commands E [] settings prefix ts snap ring_mb ring_count bpf = Inr []"
| "build_interface_commands E (iface # ifaces) settings prefix ts snap ring_mb ring_count bpf =
     (let fbase = path_join E (capture_dir E) (prefix @ ''_'' @ iface @ ''_'' @ ts @ ''.pcap'')
      in case build_tcpdump_command E iface settings fbase snap ring_mb ring_count bpf of
           Inl e \<Rightarrow> Inl e
         | Inr cmd \<Rightarrow>
             (case build_interface_commands E ifaces settings prefix ts snap ring_mb ring_count bpf of
                Inl e \<Rightarrow> Inl e
              | Inr rest \<Rightarrow>
                  Inr (\<lparr> command_c = cmd,
                         command_display = shlex_join E (map (py_str (py_repr E)) cmd),
                         interface_c = iface,
                         filename_base_c = fbase \<rparr> # rest)))"

record run_context =
  interface_contexts :: "interface_context list"
  warnings_c :: "string list"
  interfaces_c :: "string list"
  ring_file_size_mb_c :: int
  ring_file_count_c :: int
  bpf_filter_c :: string

definition build_run_context ::
  "env \<Rightarrow> (string \<times> pyval) list \<Rightarrow> state \<Rightarrow> (pyexc + run_context) \<times> state" where
  "build_run_context E profile' s =
     (let settings = (case py_get profile' ''settings'' of PDict d \<Rightarrow> d | _ \<Rightarrow> []);
          (ifaces, w1) = select_interfaces settings []
      in case calculate_ring_file_size_mb E settings w1 of
           Inl e \<Rightarrow> (Inl e, s)
         | Inr (ring_mb, w2) \<Rightarrow>
       (case coerce_positive_int (py_get settings ''ringFileCount'') DEFAULT_RING_FILE_COUNT 1
               ''Ring-Dateianzahl'' w2 of
           Inl e \<Rightarrow> (Inl e, s)
         | Inr (ring_count, w3) \<Rightarrow>
       (case determine_snap_length settings w3 of
           Inl e \<Rightarrow> (Inl e, s)
         | Inr (snap_length, w4) \<Rightarrow>
       (case build_bpf_filter settings of
           Inl e \<Rightarrow> (Inl e, s)
         | Inr bpf \<Rightarrow>
           (let w5 = (if bpf \<noteq> [] \<and> \<not> validate_bpf_filter bpf
                      then w4 @ [''BPF-Filter k'' @ oe @ ''nnte ung'' @ ue @ ''ltig sein: '' @ quote bpf]
                      else w4);
                profile_name = or_default
                  (strip (py_str (py_repr E) (py_or (py_get profile' ''name'') (PStr [])))) ''capture'';
                filename_prefix = py_str (py_repr E)
                  (py_or (py_get settings ''filenamePrefix'') (PStr (slugify profile_name)));
                (ts, s1) = utcnow_iso E s
            in case build_interface_commands E ifaces settings filename_prefix ts snap_length
                      ring_mb ring_count bpf of
                 Inl e \<Rightarrow> (Inl e, s1)
               | Inr ctxs \<Rightarrow>
                   (Inr \<lparr> interface_contexts = ctxs, warnings_c = w5, interfaces_c = ifaces,
                          ring_file_size_mb_c = ring_mb, ring_file_count_c = ring_count,
                          bpf_filter_c = bpf \<rparr>, s1))))))"

section \<open>tab\_manager.py\<close>

definition save_state_locked :: "state \<Rightarrow> state" where
  "save_state_locked s = s\<lparr>tabs_file := Some (map snd (tabs s))\<rparr>"

definition list_tabs :: "state \<Rightarrow> Tab list" where
  "list_tabs s = map snd (tabs s)"

definition create_tab :: "env \<Rightarrow> string option \<Rightarrow> string option \<Rightarrow> state \<Rightarrow> Tab \<times> state" where
  "create_tab E title' profile_id' s =
     (let (new_id, s1) = uuid4_hex E s;
          (now, s2) = utcnow_iso E s1;
          tab = \<lparr> id_t = new_id,
                  title = or_default (strip (case title' of None \<Rightarrow> [] | Some t \<Rightarrow> t)) ''Neuer Test'',
                  status = IDLE, created_utc = now, updated_utc = now,
                  profile_id_t = profile_id', run = None, logs = [], log_seq = 0,
                  last_message = None, profile = None \<rparr>;
          s3 = s2\<lparr>tabs := AList.update new_id tab (tabs s2)\<rparr>
      in (tab, save_state_locked s3))"

definition not_found :: "string \<Rightarrow> error" where
  "not_found tid = TabNotFoundError (''Tab '' @ quote tid @ '' nicht gefunden'')"

definition update_tab ::
  "env \<Rightarrow> string \<Rightarrow> string option \<Rightarrow> string option \<Rightarrow> state \<Rightarrow> (error + Tab) \<times> state" where
  "update_tab E tid title' profile_id' s =
     (case map_of (tabs s) tid of
        None \<Rightarrow> (Inl (not_found tid), s)
      | Some tab \<Rightarrow>
          (let tab1 = (case title' of None \<Rightarrow> tab
                       | Some t \<Rightarrow> tab\<lparr>title := or_default (strip t) ''Neuer Test''\<rparr>);
               tab2 = (case profile_id' of None \<Rightarrow> tab1
                       | Some p \<Rightarrow> tab1\<lparr>profile_id_t := Some p\<rparr>);
               (now, s1) = utcnow_iso E s;
               tab3 = tab2\<lparr>updated_utc := now\<rparr>;
               s2 = s1\<lparr>tabs := AList.update tid tab3 (tabs s1)\<rparr>
           in (Inr tab3, save_state_locked s2)))"

definition append_log ::
  "env \<Rightarrow> string \<Rightarrow> string \<Rightarrow> string option \<Rightarrow> state \<Rightarrow> LogEntry option \<times> state" where
  "append_log E tid msg iface s =
     (case map_of (tabs s) tid of
        None \<Rightarrow> (None, s)
      | Some tab \<Rightarrow>
          (let sq = log_seq tab + 1;
               (ts, s1) = utcnow_iso E s;
               entry = \<lparr> seq = sq, timestamp = ts, message = msg, tab_id = tid,
                         interface_l = iface \<rparr>;
               (now, s2) = utcnow_iso E s1;
               tab' = tab\<lparr> log_seq := sq,
                           logs := deque_append (max_log_entries E) (logs tab) entry,
                           last_message := Some msg,
                           updated_utc := now \<rparr>;
               s3 = s2\<lparr>tabs := AList.update tid tab' (tabs s2)\<rparr>
           in (Some entry, save_state_locked s3)))"

definition in_running :: "string \<Rightarrow> string list \<Rightarrow> bool" where
  "in_running tid running_tab_ids = (tid \<in> set running_tab_ids)"

definition delete_tab :: "string \<Rightarrow> string list \<Rightarrow> state \<Rightarrow> (error + unit) \<times> state" where
  "delete_tab tid running_tab_ids s =
     (if in_running tid running_tab_ids then
        (Inl (TestAlreadyRunningError
               (''Test l'' @ [CHR 0xC3, CHR 0xA4] @ ''uft noch in Tab '' @ quote tid
                  @ '', zuerst stoppen'')), s)
      else
        (case map_of (tabs s) tid of
           None \<Rightarrow> (Inl (not_found tid), s)
         | Some tab \<Rightarrow> (Inr (), save_state_locked (s\<lparr>tabs := AList.delete tid (tabs s)\<rparr>))))"

definition get_tab :: "string \<Rightarrow> state \<Rightarrow> error + Tab" where
  "get_tab tid s = (case map_of (tabs s) tid of None \<Rightarrow> Inl (not_found tid) | Some tab \<Rightarrow> Inr tab)"

definition get_tab_object :: "string \<Rightarrow> state \<Rightarrow> Tab option" where
  "get_tab_object tid s = map_of (tabs s) tid"

definition get_tab_snapshot :: "string \<Rightarrow> state \<Rightarrow> Tab option" where
  "get_tab_snapshot tid s = map_of (tabs s) tid"

definition update_tab_status ::
  "env \<Rightarrow> string \<Rightarrow> string \<Rightarrow> Run option \<Rightarrow> bool \<Rightarrow> state \<Rightarrow> Tab option \<times> state" where
  "update_tab_status E tid st run' save s =
     (case map_of (tabs s) tid of
        None \<Rightarrow> (None, s)
      | Some tab \<Rightarrow>
          (let tab1 = tab\<lparr>status := st\<rparr>;
               tab2 = (case run' of None \<Rightarrow> tab1 | Some r \<Rightarrow> tab1\<lparr>run := Some r\<rparr>);
               (now, s1) = utcnow_iso E s;
               tab3 = tab2\<lparr>updated_utc := now\<rparr>;
               s2 = s1\<lparr>tabs := AList.update tid tab3 (tabs s1)\<rparr>
           in (Some tab3, if save then save_state_locked s2 else s2)))"

text \<open>\<open>get_logs\<close> gives the entries (after sequence number \<open>after\<close>, when given) and \<open>lastSeq\<close>.\<close>

definition get_logs :: "string \<Rightarrow> int option \<Rightarrow> state \<Rightarrow> error + (LogEntry list \<times> int)" where
  "get_logs tid after s =
     (case map_of (tabs s) tid of
        None \<Rightarrow> Inl (not_found tid)
      | Some tab \<Rightarrow>
          Inr ((case after of None \<Rightarrow> logs tab
                | Some n \<Rightarrow> filter (\<lambda>entry. seq entry > n) (logs tab)),
               log_seq tab))"

section \<open>test\_manager.py: listeners, tab CRUD and logs\<close>

text \<open>
  \<open>_broadcast\<close>: \<open>put_nowait\<close> on every subscriber queue (of capacity 1000); a full queue
  drops the event.
\<close>

definition broadcast :: "event \<Rightarrow> state \<Rightarrow> state" where
  "broadcast ev s =
     s\<lparr>listeners := map (\<lambda>(h, q). (h, if length q < 1000 then q @ [ev] else q)) (listeners s)\<rparr>"

definition subscribe :: "state \<Rightarrow> nat \<times> state" where
  "subscribe s =
     (let h = (if listeners s = [] then 0 else Suc (Max (set (map fst (listeners s)))))
      in (h, s\<lparr>listeners := listeners s @ [(h, [])]\<rparr>))"

definition unsubscribe :: "nat \<Rightarrow> state \<Rightarrow> state" where
  "unsubscribe h s = s\<lparr>listeners := AList.delete h (listeners s)\<rparr>"

definition create_tab_facade :: "env \<Rightarrow> string option \<Rightarrow> string option \<Rightarrow> state \<Rightarrow> Tab \<times> state" where
  "create_tab_facade E title' profile_id' s =
     (let (tab, s1) = create_tab E title' profile_id' s
      in (tab, broadcast (TabCreated tab) s1))"

definition update_tab_facade ::
  "env \<Rightarrow> string \<Rightarrow> string option \<Rightarrow> string option \<Rightarrow> state \<Rightarrow> (error + Tab) \<times> state" where
  "update_tab_facade E tid title' profile_id' s =
     (case update_tab E tid title' profile_id' s of
        (Inl e, s1) \<Rightarrow> (Inl e, s1)
      | (Inr tab, s1) \<Rightarrow> (Inr tab, broadcast (TabUpdated tab) s1))"

definition get_running_tab_ids :: "state \<Rightarrow> string list" where
  "get_running_tab_ids s = map fst (runs s)"

definition delete_tab_facade :: "string \<Rightarrow> state \<Rightarrow> (error + unit) \<times> state" where
  "delete_tab_facade tid s =
     (case delete_tab tid (get_running_tab_ids s) s of
        (Inl e, s1) \<Rightarrow> (Inl e, s1)
      | (Inr u, s1) \<Rightarrow> (Inr u, broadcast (TabDeleted tid) s1))"

definition append_log_facade ::
  "env \<Rightarrow> string \<Rightarrow> string \<Rightarrow> string option \<Rightarrow> state \<Rightarrow> LogEntry option \<times> state" where
  "append_log_facade E tid msg iface s =
     (case append_log E tid msg iface s of
        (None, s1) \<Rightarrow> (None, s1)
      | (Some entry, s1) \<Rightarrow>
          (let s2 = broadcast (LogEntryEvent tid entry) s1
           in (Some entry,
               (case get_tab_snapshot tid s2 of
                  None \<Rightarrow> s2
                | Some snap \<Rightarrow> broadcast (TabUpdated snap) s2))))"

section \<open>process\_manager.py: terminating a process\<close>

definition format_exit_codes :: "int option list \<Rightarrow> string" where
  "format_exit_codes codes =
     join '', '' (map (\<lambda>c. case c of None \<Rightarrow> emdash | Some i \<Rightarrow> str_int i) codes)"

definition proc_returncode :: "state \<Rightarrow> nat \<Rightarrow> int option" where
  "proc_returncode s h = (if h < length (procs s) then returncode (procs s ! h) else None)"

text \<open>
  \<open>process.terminate()\<close> and \<open>process.kill()\<close>: the operating system gives the outcome, and
  the call is recorded on the process.
\<close>

definition send_signal :: "env \<Rightarrow> nat \<Rightarrow> signal \<Rightarrow> state \<Rightarrow> signal_outcome \<times> state" where
  "send_signal E h sg s =
     (let out = signal_result E (ticks s) h sg
      in (out, s\<lparr> ticks := Suc (ticks s),
                   procs := (if h < length (procs s)
                             then (procs s)[h := (procs s ! h)\<lparr>signals := signals (procs s ! h) @ [(sg, out)]\<rparr>]
                             else procs s) \<rparr>))"

text \<open>
  \<open>asyncio.wait_for(process.wait(), timeout)\<close>: the process exits within the timeout with
  a return code, which it then holds, or the wait times out (\<open>None\<close>).
\<close>

definition wait_for_exit :: "env \<Rightarrow> nat \<Rightarrow> state \<Rightarrow> int option \<times> state" where
  "wait_for_exit E h s =
     (let out = wait_result E (ticks s) h
      in (out, s\<lparr> ticks := Suc (ticks s),
                   procs := (case out of
                               Some c \<Rightarrow> (if h < length (procs s)
                                          then (procs s)[h := (procs s ! h)\<lparr>returncode := Some c\<rparr>]
                                          else procs s)
                             | None \<Rightarrow> procs s) \<rparr>))"

definition sig_name :: "signal \<Rightarrow> string" where
  "sig_name sg = (case sg of SIGTERM \<Rightarrow> ''SIGTERM'' | SIGKILL \<Rightarrow> ''SIGKILL'')"

definition tag :: "string \<Rightarrow> string" where
  "tag iface = ''['' @ iface @ ''] ''"

definition terminate_process_safely ::
  "env \<Rightarrow> (string \<Rightarrow> string option \<Rightarrow> state \<Rightarrow> state) \<Rightarrow> nat \<Rightarrow> string \<Rightarrow> state \<Rightarrow> state" where
  "terminate_process_safely E log_callback h iface s =
     (if proc_returncode s h \<noteq> None then s
      else
        (let s1 = log_callback (tag iface @ ''Sende '' @ sig_name SIGTERM @ ellipsis) (Some iface) s;
             (o1, s2) = send_signal E h SIGTERM s1
         in if o1 = SigProcessLookupError then s2
            else
              (let s3 = (case o1 of
                           SigPermissionError txt \<Rightarrow>
                             log_callback (tag iface @ ''Warnung beim '' @ sig_name SIGTERM @ '': '' @ txt)
                               (Some iface) s2
                         | _ \<Rightarrow> s2);
                   (w1, s4) = wait_for_exit E h s3
               in if w1 \<noteq> None then s4
                  else
                    (let s5 = log_callback
                                (tag iface @ ''Timeout nach '' @ sig_name SIGTERM @ '', sende ''
                                   @ sig_name SIGKILL @ ellipsis) (Some iface) s4;
                         (o2, s6) = send_signal E h SIGKILL s5
                     in if o2 = SigProcessLookupError then s6
                        else
                          (let s7 = (case o2 of
                                       SigPermissionError txt \<Rightarrow>
                                         log_callback (tag iface @ ''Warnung beim '' @ sig_name SIGKILL
                                                         @ '': '' @ txt) (Some iface) s6
                                     | _ \<Rightarrow> s6);
                               (w2, s8) = wait_for_exit E h s7
                           in if w2 \<noteq> None then s8
                              else log_callback
                                     (tag iface @ ''Prozess reagiert nicht, wird als beendet markiert'')
                                     (Some iface) s8)))))"

section \<open>run\_executor.py: runs\<close>

definition is_running :: "string \<Rightarrow> state \<Rightarrow> bool" where
  "is_running tid s = (map_of (runs s) tid \<noteq> None)"

definition remove_run :: "string \<Rightarrow> state \<Rightarrow> RunningTest option \<times> state" where
  "remove_run tid s = (map_of (runs s) tid, s\<lparr>runs := AList.delete tid (runs s)\<rparr>)"

definition check_all_processes_done :: "string \<Rightarrow> state \<Rightarrow> bool \<times> int option list" where
  "check_all_processes_done tid s =
     (case map_of (runs s) tid of
        None \<Rightarrow> (False, [])
      | Some st \<Rightarrow>
          (list_all (\<lambda>iproc. proc_returncode s (process iproc) \<noteq> None) (processes st),
           map (\<lambda>iproc. proc_returncode s (process iproc)) (processes st)))"

definition get_test_metadata_file :: "string \<Rightarrow> state \<Rightarrow> string option" where
  "get_test_metadata_file tid s =
     (case map_of (runs s) tid of None \<Rightarrow> None | Some st \<Rightarrow> test_metadata_file st)"

text \<open>\<open>set_watcher_task\<close> gives the task to the first process of the run on that interface.\<close>

fun set_first_task :: "string \<Rightarrow> nat \<Rightarrow> InterfaceProcess list \<Rightarrow> InterfaceProcess list" where
  "set_first_task iface t [] = []"
| "set_first_task iface t (ip # ips) =
     (if interface_p ip = iface then ip\<lparr>task := Some t\<rparr> # ips
      else ip # set_first_task iface t ips)"

definition set_watcher_task :: "string \<Rightarrow> string \<Rightarrow> nat \<Rightarrow> state \<Rightarrow> state" where
  "set_watcher_task tid iface t s =
     (case map_of (runs s) tid of
        None \<Rightarrow> s
      | Some st \<Rightarrow>
          s\<lparr>runs := AList.update tid (st\<lparr>processes := set_first_task iface t (processes st)\<rparr>) (runs s)\<rparr>)"

text \<open>\<open>write_capture_metadata\<close> of \<open>capture_manager.py\<close> appends the row to the journal.\<close>

definition write_capture_metadata :: "(string \<times> pyval) list \<Rightarrow> string option \<Rightarrow> state \<Rightarrow> state" where
  "write_capture_metadata row tmf s = s\<lparr>journal := journal s @ [(row, tmf)]\<rparr>"

definition stop_row :: "string \<Rightarrow> int \<Rightarrow> string \<Rightarrow> string \<Rightarrow> (string \<times> pyval) list" where
  "stop_row now p cid iface =
     [(''event'', PStr ''stop''), (''utc'', PStr now), (''pid'', PInt p),
      (''capture_id'', PStr cid), (''interface'', PStr iface)]"

text \<open>\<open>str(uuid4())\<close>: the 32 hexadecimal digits in groups of 8, 4, 4, 4 and 12.\<close>

definition uuid_str :: "string \<Rightarrow> string" where
  "uuid_str h = take 8 h @ ''-'' @ take 4 (drop 8 h) @ ''-'' @ take 4 (drop 12 h) @ ''-''
                @ take 4 (drop 16 h) @ ''-'' @ drop 20 h"

definition create_subprocess_exec :: "env \<Rightarrow> pyval list \<Rightarrow> state \<Rightarrow> spawn_result \<times> state" where
  "create_subprocess_exec E cmd s = (spawn E (ticks s) cmd, s\<lparr>ticks := Suc (ticks s)\<rparr>)"

fun cleanup_started_processes :: "env \<Rightarrow> InterfaceProcess list \<Rightarrow> state \<Rightarrow> state" where
  "cleanup_started_processes E [] s = s"
| "cleanup_started_processes E (iproc # iprocs) s =
     cleanup_started_processes E iprocs (snd (send_signal E (process iproc) SIGKILL s))"

record spawn_acc =
  interface_processes :: "InterfaceProcess list"
  all_pids :: "int list"
  all_capture_ids :: "string list"
  all_filename_bases :: "string list"
  test_metadata_file_a :: "string option"

text \<open>
  The loop of \<open>start_test\<close> over the interface contexts. \<open>row\<close> builds the start row of the
  journal from the capture id, the interface, the file name and the pid.
\<close>

fun spawn_all ::
  "env \<Rightarrow> (string \<Rightarrow> string option \<Rightarrow> state \<Rightarrow> state) \<Rightarrow> bool
     \<Rightarrow> (string \<Rightarrow> string \<Rightarrow> string \<Rightarrow> int \<Rightarrow> (string \<times> pyval) list)
     \<Rightarrow> interface_context list \<Rightarrow> spawn_acc \<Rightarrow> state \<Rightarrow> (error + spawn_acc) \<times> state" where
  "spawn_all E log_callback generate row [] acc s = (Inr acc, s)"
| "spawn_all E log_callback generate row (ctx # ctxs) acc s =
     (let iface = interface_c ctx;
          fbase = filename_base_c ctx;
          (u, s1) = uuid4_hex E s;
          interface_capture_id = uuid_str u;
          acc1 = acc\<lparr> all_capture_ids := all_capture_ids acc @ [interface_capture_id],
                      all_filename_bases := all_filename_bases acc @ [fbase] \<rparr>;
          (res, s2) = create_subprocess_exec E (command_c ctx) s1;
          failed = (\<lambda>msg. let s3 = cleanup_started_processes E (interface_processes acc1) s2;
                               s4 = log_callback msg None s3
                           in (Inl (TestExecutionError msg), s4))
      in case res of
           SpawnFileNotFoundError txt \<Rightarrow> failed (''tcpdump nicht gefunden: '' @ txt)
         | SpawnPermissionError txt \<Rightarrow> failed (''Start fehlgeschlagen f'' @ ue @ ''r '' @ iface @ '': '' @ txt)
         | SpawnOSError txt \<Rightarrow> failed (''Start fehlgeschlagen f'' @ ue @ ''r '' @ iface @ '': '' @ txt)
         | SpawnException txt \<Rightarrow> failed (''Start fehlgeschlagen f'' @ ue @ ''r '' @ iface @ '': '' @ txt)
         | Spawned pid0 \<Rightarrow>
             (let h = length (procs s2);
                  s3 = s2\<lparr>procs := procs s2 @ [\<lparr> p_pid = pid0, returncode = None, signals = [] \<rparr>]\<rparr>;
                  pid' = (if pid0 \<noteq> 0 then pid0 else - 1);
                  tmf = (if generate \<and> test_metadata_file_a acc1 = None
                         then Some (path_meta_csv E fbase) else test_metadata_file_a acc1);
                  s4 = write_capture_metadata (row interface_capture_id iface fbase pid') tmf s3;
                  acc2 = acc1\<lparr> all_pids := all_pids acc1 @ [pid'],
                               test_metadata_file_a := tmf,
                               interface_processes := interface_processes acc1 @
                                 [\<lparr> process = h, task = None, filename_base_p = fbase,
                                    interface_p = iface, capture_id_p = interface_capture_id,
                                    pid_p = pid' \<rparr>] \<rparr>;
                  s5 = log_callback (tag iface @ ''Gestartet (PID '' @ str_int pid' @ '', Capture-ID: ''
                                       @ take 8 interface_capture_id @ ellipsis @ '')'') (Some iface) s4
              in spawn_all E log_callback generate row ctxs acc2 s5))"

record start_result =
  sr_run_id :: string
  sr_start_timestamp :: string
  sr_commands :: "string list"
  sr_filenames_bases :: "string list"
  sr_capture_ids :: "string list"
  sr_main_capture_id :: string
  sr_pids :: "int list"
  sr_interfaces :: "string list"
  sr_ring_file_size_mb :: int
  sr_ring_file_count :: int
  sr_bpf_filter :: string
  sr_interface_processes :: "InterfaceProcess list"

definition already_running_msg :: "string \<Rightarrow> string" where
  "already_running_msg tid = ''Test l'' @ ae @ ''uft bereits in Tab '' @ quote tid"

definition start_test ::
  "env \<Rightarrow> (string \<Rightarrow> string option \<Rightarrow> state \<Rightarrow> state) \<Rightarrow> string \<Rightarrow> (string \<times> pyval) list
     \<Rightarrow> string \<Rightarrow> state \<Rightarrow> (error + start_result) \<times> state" where
  "start_test E log_callback tid profile' tab_name s =
     (if map_of (runs s) tid \<noteq> None then (Inl (TestExecutionError (already_running_msg tid)), s)
      else
        (case build_run_context E profile' s of
           (Inl ValueError, s1) \<Rightarrow>
             (Inl (InvalidConfigurationError
                    (''Konfiguration ung'' @ ue @ ''ltig: '' @ exc_text E ValueError)), s1)
         | (Inl e, s1) \<Rightarrow> (Inl (PyError e), s1)
         | (Inr rc, s1) \<Rightarrow>
             (let ifaces = interfaces_c rc;
                  s2 = fold (\<lambda>warn. log_callback warn None) (warnings_c rc) s1;
                  s3 = (if length ifaces > 1
                        then log_callback (''Starte tcpdump auf '' @ str_int (int (length ifaces))
                                             @ '' Interfaces: '' @ join '', '' ifaces) None s2
                        else s2);
                  s4 = fold (\<lambda>ctx. log_callback (tag (interface_c ctx) @ ''Starte: '' @ command_display ctx)
                                      (Some (interface_c ctx))) (interface_contexts rc) s3;
                  profile_id' = py_get profile' ''id'';
                  profile_name' = py_get profile' ''name'';
                  (start_timestamp, s5) = utcnow_iso E s4;
                  (u1, s6) = uuid4_hex E s5;
                  (u2, s7) = uuid4_hex E s6;
                  run_id' = uuid_str u1;
                  main_capture_id' = uuid_str u2
              in case py_get_default profile' ''settings'' (PDict []) of
                   PDict profile_settings \<Rightarrow>
                     (let generate = truthy (py_get_default profile_settings ''generateTestMetadataFile''
                                               (PBool False));
                          row = (\<lambda>cid iface fbase p.
                                   [(''event'', PStr ''start''), (''utc'', PStr start_timestamp),
                                    (''capture_id'', PStr cid), (''main_capture_id'', PStr main_capture_id'),
                                    (''interface'', PStr iface), (''interfaces'', PList (map PStr ifaces)),
                                    (''ring_file_size_mb'', PInt (ring_file_size_mb_c rc)),
                                    (''ring_file_count'', PInt (ring_file_count_c rc)),
                                    (''filename_base'', PStr fbase), (''pid'', PInt p),
                                    (''bpf_filter'', PStr (bpf_filter_c rc)),
                                    (''test_name'', PStr tab_name),
                                    (''profile_id'', profile_id'), (''profile_name'', profile_name')])
                      in case spawn_all E log_callback generate row (interface_contexts rc)
                                \<lparr> interface_processes = [], all_pids = [], all_capture_ids = [],
                                  all_filename_bases = [], test_metadata_file_a = None \<rparr> s7 of
                           (Inl e, s8) \<Rightarrow> (Inl e, s8)
                         | (Inr acc, s8) \<Rightarrow>
                             (Inr \<lparr> sr_run_id = run_id', sr_start_timestamp = start_timestamp,
                                    sr_commands = map command_display (interface_contexts rc),
                                    sr_filenames_bases = all_filename_bases acc,
                                    sr_capture_ids = all_capture_ids acc,
                                    sr_main_capture_id = main_capture_id',
                                    sr_pids = all_pids acc, sr_interfaces = ifaces,
                                    sr_ring_file_size_mb = ring_file_size_mb_c rc,
                                    sr_ring_file_count = ring_file_count_c rc,
                                    sr_bpf_filter = bpf_filter_c rc,
                                    sr_interface_processes = interface_processes acc \<rparr>,
                              s8\<lparr>runs := AList.update tid
                                    \<lparr> run_id = run_id', interfaces_rt = ifaces,
                                      ring_file_size_mb_rt = ring_file_size_mb_c rc,
                                      ring_file_count_rt = ring_file_count_c rc,
                                      bpf_filter_rt = bpf_filter_c rc,
                                      processes = interface_processes acc,
                                      test_metadata_file = test_metadata_file_a acc \<rparr> (runs s8)\<rparr>))
                 | _ \<Rightarrow> (Inl (PyError AttributeError), s7))))"

text \<open>
  \<open>stop_test\<close>. Cancelling a watcher that has not finished ends it (see
  \<open>watch_interface_process\<close> below: a cancelled watcher re-raises at once), so the bounded
  wait for the tasks changes nothing more.
\<close>

definition cancel_task :: "nat \<Rightarrow> state \<Rightarrow> state" where
  "cancel_task t s =
     (if t < length (tasks s) \<and> t_status (tasks s ! t) = TaskPending
      then s\<lparr>tasks := (tasks s)[t := (tasks s ! t)\<lparr>t_status := TaskCancelled\<rparr>]\<rparr>
      else s)"

datatype stop_result = NotStopped | Stopped string "int option list" "string option"

definition stop_test ::
  "env \<Rightarrow> (string \<Rightarrow> string option \<Rightarrow> state \<Rightarrow> state) \<Rightarrow> string \<Rightarrow> state \<Rightarrow> stop_result \<times> state" where
  "stop_test E log_callback tid s =
     (case map_of (runs s) tid of
        None \<Rightarrow> (NotStopped, s)
      | Some st \<Rightarrow>
          (let s1 = s\<lparr>runs := AList.delete tid (runs s)\<rparr>;
               procs' = processes st;
               s2 = fold (\<lambda>iproc. case task iproc of None \<Rightarrow> id | Some t \<Rightarrow> cancel_task t) procs' s1;
               s3 = (if length (interfaces_rt st) > 1
                     then log_callback (''Stoppsignal an '' @ str_int (int (length procs'))
                                          @ '' tcpdump-Prozesse senden'' @ ellipsis) None s2
                     else log_callback (''Stoppsignal an tcpdump senden'' @ ellipsis) None s2);
               s4 = fold (\<lambda>iproc. terminate_process_safely E log_callback (process iproc) (interface_p iproc))
                      procs' s3;
               s5 = fold (\<lambda>iproc st'. let (now, st1) = utcnow_iso E st'
                                        in write_capture_metadata
                                             (stop_row now (pid_p iproc) (capture_id_p iproc) (interface_p iproc))
                                             (test_metadata_file st) st1)
                      procs' s4;
               codes = map (\<lambda>iproc. proc_returncode s5 (process iproc)) procs';
               s6 = log_callback (''Testlauf '' @ run_id st @ '' gestoppt (Exit-Codes: [''
                                    @ format_exit_codes codes @ '']).'') None s5
           in (Stopped (run_id st) codes (test_metadata_file st), s6)))"

section \<open>process\_manager.py: watching a process\<close>

text \<open>
  What an \<open>await\<close> can do: give its value, or raise \<open>asyncio.CancelledError\<close> (the task was
  cancelled while it waited there), an \<open>OSError\<close>, or another \<open>Exception\<close>, with the text
  \<open>str(exc)\<close>.
\<close>

datatype 'a outcome = Ok 'a | RaisedCancelled | RaisedOSError string | RaisedException string

text \<open>
  What the watched process does: the results of the successive \<open>stdout.readline()\<close> calls
  (the empty line is the end of the output), the result of \<open>process.wait()\<close>, and what
  \<open>process.returncode\<close> holds if the wait raised. When the reads are used up and the output
  has not ended, the watcher is still waiting for a line.
\<close>

record watch_script =
  has_stdout :: bool
  reads :: "string outcome list"
  wait_out :: "int outcome"
  returncode_attr :: "int option"

datatype loop_end = LoopDone | LoopCancelled | LoopBlocked

datatype watch_end = Returned | Cancelled | Blocked

definition rstrip_newline :: "string \<Rightarrow> string" where
  "rstrip_newline l = rev (dropWhile (\<lambda>c. c = CHR 0x0A) (rev l))"

text \<open>
  The \<open>while True\<close> loop. A read that raises an error other than the cancellation ends the
  loop; an error of the log callback other than the cancellation is logged and the loop
  goes on.
\<close>

fun read_loop ::
  "(string \<Rightarrow> string option \<Rightarrow> 'st \<Rightarrow> unit outcome \<times> 'st) \<Rightarrow> string \<Rightarrow> string outcome list
     \<Rightarrow> 'st \<Rightarrow> loop_end \<times> 'st" where
  "read_loop log_callback iface [] st = (LoopBlocked, st)"
| "read_loop log_callback iface (r # rs) st =
     (case r of
        RaisedCancelled \<Rightarrow> (LoopCancelled, st)
      | RaisedOSError txt \<Rightarrow> (LoopDone, st)
      | RaisedException txt \<Rightarrow> (LoopDone, st)
      | Ok line \<Rightarrow>
          (if line = [] then (LoopDone, st)
           else (case log_callback (rstrip_newline line) (Some iface) st of
                   (RaisedCancelled, st') \<Rightarrow> (LoopCancelled, st')
                 | (_, st') \<Rightarrow> read_loop log_callback iface rs st')))"

text \<open>
  The two handlers \<open>except (OSError, IOError)\<close> and \<open>except Exception\<close>: log the error, then
  call the exit callback with \<open>process.returncode\<close> and the text of the error. Both calls
  swallow an \<open>Exception\<close>; the cancellation gets through.
\<close>

definition watch_failed ::
  "(string \<Rightarrow> string option \<Rightarrow> 'st \<Rightarrow> unit outcome \<times> 'st)
     \<Rightarrow> (int option \<Rightarrow> string option \<Rightarrow> 'st \<Rightarrow> unit outcome \<times> 'st)
     \<Rightarrow> string \<Rightarrow> string \<Rightarrow> int option \<Rightarrow> string \<Rightarrow> 'st \<Rightarrow> watch_end \<times> 'st" where
  "watch_failed log_callback exit_callback iface what rc txt st =
     (case log_callback (tag iface @ what @ txt) (Some iface) st of
        (RaisedCancelled, st1) \<Rightarrow> (Cancelled, st1)
      | (_, st1) \<Rightarrow>
          (case exit_callback rc (Some txt) st1 of
             (RaisedCancelled, st2) \<Rightarrow> (Cancelled, st2)
           | (_, st2) \<Rightarrow> (Returned, st2)))"

definition watch_interface_process ::
  "(string \<Rightarrow> string option \<Rightarrow> 'st \<Rightarrow> unit outcome \<times> 'st)
     \<Rightarrow> (int option \<Rightarrow> string option \<Rightarrow> 'st \<Rightarrow> unit outcome \<times> 'st)
     \<Rightarrow> string \<Rightarrow> watch_script \<Rightarrow> 'st \<Rightarrow> watch_end \<times> 'st" where
  "watch_interface_process log_callback exit_callback iface script st =
     (let io = ''I/O-Fehler beim Wachen: '';
          other = ''Fehler beim Lesen der Ausgabe: '';
          (le, st1) = (if has_stdout script then read_loop log_callback iface (reads script) st
                       else (LoopDone, st))
      in case le of
           LoopCancelled \<Rightarrow> (Cancelled, st1)
         | LoopBlocked \<Rightarrow> (Blocked, st1)
         | LoopDone \<Rightarrow>
             (case wait_out script of
                RaisedCancelled \<Rightarrow> (Cancelled, st1)
              | RaisedOSError txt \<Rightarrow>
                  watch_failed log_callback exit_callback iface io (returncode_attr script) txt st1
              | RaisedException txt \<Rightarrow>
                  watch_failed log_callback exit_callback iface other (returncode_attr script) txt st1
              | Ok rc \<Rightarrow>
                  (case exit_callback (Some rc) None st1 of
                     (Ok u, st2) \<Rightarrow> (Returned, st2)
                   | (RaisedCancelled, st2) \<Rightarrow> (Cancelled, st2)
                   | (RaisedOSError txt, st2) \<Rightarrow>
                       watch_failed log_callback exit_callback iface io (Some rc) txt st2
                   | (RaisedException txt, st2) \<Rightarrow>
                       watch_failed log_callback exit_callback iface other (Some rc) txt st2)))"

text \<open>
  A watcher observed from outside: the state is the list of the calls it has made to its
  two callbacks, and \<open>behaviour n\<close> is what the callback called after \<open>n\<close> earlier calls does.
\<close>

datatype call = LogCall string "string option" | ExitCall "int option" "string option"

definition traced_log ::
  "(nat \<Rightarrow> unit outcome) \<Rightarrow> string \<Rightarrow> string option \<Rightarrow> call list \<Rightarrow> unit outcome \<times> call list" where
  "traced_log behaviour msg iface calls = (behaviour (length calls), calls @ [LogCall msg iface])"

definition traced_exit ::
  "(nat \<Rightarrow> unit outcome) \<Rightarrow> int option \<Rightarrow> string option \<Rightarrow> call list \<Rightarrow> unit outcome \<times> call list" where
  "traced_exit behaviour rc err calls = (behaviour (length calls), calls @ [ExitCall rc err])"

definition watch_traced :: "(nat \<Rightarrow> unit outcome) \<Rightarrow> string \<Rightarrow> watch_script \<Rightarrow> watch_end \<times> call list" where
  "watch_traced behaviour iface script =
     watch_interface_process (traced_log behaviour) (traced_exit behaviour) iface script []"

fun is_exit_call :: "call \<Rightarrow> bool" where
  "is_exit_call (ExitCall rc err) = True"
| "is_exit_call (LogCall msg iface) = False"

section \<open>test\_manager.py: test execution\<close>

text \<open>\<open>if error:\<close> on an optional text, and \<open>if run.finished_utc:\<close>.\<close>

definition truthy_str :: "string option \<Rightarrow> bool" where
  "truthy_str v = (case v of None \<Rightarrow> False | Some t \<Rightarrow> t \<noteq> [])"

text \<open>\<open>any(code and code != 0 for code in exit_codes)\<close>.\<close>

definition any_failed :: "int option list \<Rightarrow> bool" where
  "any_failed codes = list_ex (\<lambda>code. case code of None \<Rightarrow> False | Some c \<Rightarrow> c \<noteq> 0 \<and> c \<noteq> 0) codes"

definition first_code :: "int option list \<Rightarrow> int option" where
  "first_code codes = (case codes of [] \<Rightarrow> None | c # cs \<Rightarrow> c)"

definition log_callback_facade :: "env \<Rightarrow> string \<Rightarrow> string \<Rightarrow> string option \<Rightarrow> state \<Rightarrow> state" where
  "log_callback_facade E tid msg iface s = snd (append_log_facade E tid msg iface s)"

definition put_tab :: "string \<Rightarrow> Tab \<Rightarrow> state \<Rightarrow> state" where
  "put_tab tid tab s = s\<lparr>tabs := AList.update tid tab (tabs s)\<rparr>"

definition mark_run_failed :: "env \<Rightarrow> string \<Rightarrow> string \<Rightarrow> string \<Rightarrow> state \<Rightarrow> state" where
  "mark_run_failed E tid rid msg s =
     (let s1 = snd (append_log_facade E tid msg None s)
      in case get_tab_object tid s1 of
           None \<Rightarrow> s1
         | Some tab \<Rightarrow>
             (case run tab of
                None \<Rightarrow> s1
              | Some r \<Rightarrow>
                  (if rid \<noteq> [] \<and> id_r r \<noteq> rid then s1
                   else
                     (let s2 = snd (remove_run tid s1);
                          (now, s3) = utcnow_iso E s2;
                          tab' = tab\<lparr> run := Some (r\<lparr> finished_utc := Some now,
                                                       exit_codes := Some [None],
                                                       exit_code := None,
                                                       error := Some msg \<rparr>),
                                      status := FAILED \<rparr>;
                          s4 = save_state_locked (put_tab tid tab' s3)
                      in broadcast (TabUpdated tab') s4))))"

text \<open>
  \<open>_handle_interface_process_exit\<close>, in two parts: \<open>finalize_run\<close> is the body of
  \<open>if all_done:\<close>.
\<close>

definition finalize_run ::
  "env \<Rightarrow> string \<Rightarrow> string \<Rightarrow> string option \<Rightarrow> int option list \<Rightarrow> state \<Rightarrow> state" where
  "finalize_run E tid rid err codes s =
     (case get_tab_object tid s of
        None \<Rightarrow> s
      | Some tab \<Rightarrow>
          (case run tab of
             None \<Rightarrow> s
           | Some r \<Rightarrow>
               (if id_r r \<noteq> rid then s
                else if truthy_str (finished_utc r) then s
                else
                  (let (now2, s4) = utcnow_iso E s;
                       st' = (if truthy_str err then FAILED
                              else if any_failed codes then FAILED
                              else COMPLETED);
                       tab' = tab\<lparr> run := Some (r\<lparr> finished_utc := Some now2,
                                                    exit_codes := Some codes,
                                                    exit_code := first_code codes,
                                                    error := err \<rparr>),
                                   status := st' \<rparr>;
                       s5 = put_tab tid tab' s4;
                       s6 = snd (remove_run tid s5);
                       s7 = save_state_locked s6;
                       s8 = broadcast (TabUpdated tab') s7
                   in snd (append_log_facade E tid
                             (''Testlauf '' @ rid @ '' beendet (Status: '' @ st'
                                @ '', Exit-Codes: ['' @ format_exit_codes codes @ '']).'')
                             None s8)))))"

definition handle_interface_process_exit ::
  "env \<Rightarrow> string \<Rightarrow> string \<Rightarrow> string \<Rightarrow> string \<Rightarrow> int \<Rightarrow> int option \<Rightarrow> string option
     \<Rightarrow> state \<Rightarrow> state" where
  "handle_interface_process_exit E tid rid iface cid p rc err s =
     (let tmf = get_test_metadata_file tid s;
          (now, s1) = utcnow_iso E s;
          s2 = write_capture_metadata (stop_row now p cid iface) tmf s1;
          s3 = snd (append_log_facade E tid
                      (tag iface @ ''tcpdump beendet (Exit-Code: ''
                         @ (case rc of None \<Rightarrow> emdash | Some c \<Rightarrow> str_int c) @ '')'')
                      (Some iface) s2);
          (all_done, codes) = check_all_processes_done tid s3
      in if \<not> all_done then s3 else finalize_run E tid rid err codes s3)"

definition stop_test_facade :: "env \<Rightarrow> string \<Rightarrow> state \<Rightarrow> (error + Tab) \<times> state" where
  "stop_test_facade E tid s =
     (case stop_test E (log_callback_facade E tid) tid s of
        (NotStopped, s1) \<Rightarrow>
          (case get_tab_object tid s1 of
             Some tab \<Rightarrow> (Inr tab, s1)
           | None \<Rightarrow> (Inl (not_found tid), s1))
      | (Stopped rid codes tmf, s1) \<Rightarrow>
          (case get_tab_object tid s1 of
             None \<Rightarrow> (Inl (not_found tid), s1)
           | Some tab \<Rightarrow>
               (let (tab', s2) =
                      (case run tab of
                         None \<Rightarrow> (tab, s1)
                       | Some r \<Rightarrow>
                           (if truthy_str (finished_utc r) then (tab, s1)
                            else
                              (let (now, s1a) = utcnow_iso E s1;
                                   tab1 = tab\<lparr> run := Some (r\<lparr> finished_utc := Some now,
                                                                exit_codes := Some codes,
                                                                exit_code := first_code codes \<rparr>),
                                               status := (if any_failed codes then FAILED else COMPLETED) \<rparr>
                               in (tab1, save_state_locked (put_tab tid tab1 s1a)))))
                in (Inr tab', broadcast (TabUpdated tab') s2))))"

text \<open>\<open>value * n\<close> for an integer \<open>n\<close>: numbers multiply, strings and lists repeat.\<close>

fun py_mul_int :: "pyval \<Rightarrow> int \<Rightarrow> pyexc + pyval" where
  "py_mul_int (PInt i) n = Inr (PInt (i * n))"
| "py_mul_int (PBool b) n = Inr (PInt ((if b then 1 else 0) * n))"
| "py_mul_int (PFloat f) n = Inr (PFloat (fmul f (of_int n)))"
| "py_mul_int (PStr t) n = Inr (PStr (concat (replicate (nat n) t)))"
| "py_mul_int (PList l) n = Inr (PList (concat (replicate (nat n) l)))"
| "py_mul_int PNone n = Inl TypeError"
| "py_mul_int (PDict d) n = Inl TypeError"

definition convert_duration_to_seconds :: "pyval \<Rightarrow> pyval \<Rightarrow> pyexc + pyval" where
  "convert_duration_to_seconds v unit' =
     (case unit' of
        PStr u \<Rightarrow>
          (if lower u = ''seconds'' then Inr v
           else if lower u = ''minutes'' then py_mul_int v 60
           else if lower u = ''hours'' then py_mul_int v 3600
           else Inr v)
      | _ \<Rightarrow> Inl AttributeError)"

text \<open>
  \<open>asyncio.create_task(self._watch_and_handle_exit(...))\<close> followed by
  \<open>set_watcher_task\<close>: the new task is pending.
\<close>

definition create_watcher :: "string \<Rightarrow> string \<Rightarrow> InterfaceProcess \<Rightarrow> state \<Rightarrow> state" where
  "create_watcher tid rid iproc s =
     set_watcher_task tid (interface_p iproc) (length (tasks s))
       (s\<lparr>tasks := tasks s @ [\<lparr> t_status = TaskPending, t_tab_id = tid, t_run_id = rid,
                                  t_iproc = iproc \<rparr>]\<rparr>)"

definition head_or :: "'a list \<Rightarrow> 'a \<Rightarrow> 'a" where
  "head_or xs d = (case xs of [] \<Rightarrow> d | x # rest \<Rightarrow> x)"

definition run_of_result :: "start_result \<Rightarrow> pyval \<Rightarrow> Run" where
  "run_of_result ctx profile_id' =
     \<lparr> id_r = sr_run_id ctx, profile_id_r = profile_id', started_utc = sr_start_timestamp ctx,
       finished_utc = None, exit_code = None, exit_codes = None, cancelled = False, error = None,
       commands = Some (sr_commands ctx), filenames_bases = Some (sr_filenames_bases ctx),
       capture_ids = Some (sr_capture_ids ctx), main_capture_id = Some (sr_main_capture_id ctx),
       pids = Some (sr_pids ctx), interfaces = Some (sr_interfaces ctx),
       ring_file_size_mb = Some (sr_ring_file_size_mb ctx),
       ring_file_count = Some (sr_ring_file_count ctx),
       bpf_filter = Some (sr_bpf_filter ctx),
       command = Some (head_or (sr_commands ctx) []),
       filename_base = Some (head_or (sr_filenames_bases ctx) []),
       capture_id = Some (head_or (sr_capture_ids ctx) []),
       pid = Some (head_or (sr_pids ctx) (- 1)),
       interface = Some (head_or (sr_interfaces ctx) []) \<rparr>"

definition start_test_facade ::
  "env \<Rightarrow> string \<Rightarrow> (string \<times> pyval) list \<Rightarrow> state \<Rightarrow> (error + Tab option) \<times> state" where
  "start_test_facade E tid profile' s =
     (case get_tab_object tid s of
        None \<Rightarrow> (Inl (not_found tid), s)
      | Some tab \<Rightarrow>
          (if is_running tid s then (Inl (TestAlreadyRunningError (already_running_msg tid)), s)
           else
             (let (now, s1) = utcnow_iso E s;
                  (snap, s2) = update_tab_status E tid STARTING
                                 (Some (new_Run [] (py_get profile' ''id'') now)) True s1;
                  s3 = (case snap of None \<Rightarrow> s2 | Some t \<Rightarrow> broadcast (TabUpdated t) s2)
              in case start_test E (log_callback_facade E tid) tid profile'
                        (or_default (title tab) ''Test'') s3 of
                   (Inl (InvalidConfigurationError m), s4) \<Rightarrow>
                     (Inl (InvalidConfigurationError m), mark_run_failed E tid [] m s4)
                 | (Inl (TestExecutionError m), s4) \<Rightarrow>
                     (Inl (TestExecutionError m), mark_run_failed E tid [] m s4)
                 | (Inl e, s4) \<Rightarrow> (Inl e, s4)
                 | (Inr ctx, s4) \<Rightarrow>
                     (let s5 = fold (create_watcher tid (sr_run_id ctx)) (sr_interface_processes ctx) s4;
                          (snap2, s6) = update_tab_status E tid RUNNING
                                          (Some (run_of_result ctx (py_get profile' ''id''))) True s5;
                          s7 = (case snap2 of None \<Rightarrow> s6 | Some t \<Rightarrow> broadcast (TabUpdated t) s6);
                          s8 = snd (append_log_facade E tid
                                      (''Testlauf '' @ sr_run_id ctx @ '' gestartet (''
                                         @ str_int (int (length (sr_interfaces ctx)))
                                         @ '' Interface(s), PIDs: ''
                                         @ join '', '' (map str_int (sr_pids ctx)) @ '').'') None s7)
                      in case py_get_default profile' ''settings'' (PDict []) of
                           PDict settings \<Rightarrow>
                             (if py_get_default settings ''stopCondition'' (PStr ''manual'') = PStr ''duration''
                              then
                                (let duration_value = py_get_default settings ''stopDurationValue'' (PInt 60);
                                     duration_unit = py_get_default settings ''stopDurationUnit'' (PStr ''seconds'')
                                 in case convert_duration_to_seconds duration_value duration_unit of
                                      Inl e \<Rightarrow> (Inl (PyError e), s8)
                                    | Inr secs \<Rightarrow>
                                        (let s9 = snd (append_log_facade E tid
                                                         (''Automatischer Stop nach ''
                                                            @ py_str (py_repr E) duration_value @ '' ''
                                                            @ py_str (py_repr E) duration_unit @ '' (''
                                                            @ py_str (py_repr E) secs @ ''s).'') None s8)
                                         in (Inr snap2, s9\<lparr>timers := timers s9 @ [(tid, sr_run_id ctx, secs)]\<rparr>)))
                              else (Inr snap2, s8))
                         | _ \<Rightarrow> (Inl (PyError AttributeError), s8)))))"

text \<open>\<open>_auto_stop_after_duration\<close>, once its sleep is over.\<close>

definition auto_stop_after_duration :: "env \<Rightarrow> string \<Rightarrow> string \<Rightarrow> pyval \<Rightarrow> state \<Rightarrow> state" where
  "auto_stop_after_duration E tid rid secs s =
     (case get_tab_object tid s of
        None \<Rightarrow> s
      | Some tab \<Rightarrow>
          (case run tab of
             None \<Rightarrow> s
           | Some r \<Rightarrow>
               (if id_r r \<noteq> rid then s
                else if truthy_str (finished_utc r) then s
                else if \<not> is_running tid s then s
                else
                  (let s1 = snd (append_log_facade E tid
                                   (''Duration-Timer abgelaufen ('' @ py_str (py_repr E) secs
                                      @ ''s) - stoppe Test automatisch.'') None s)
                   in snd (stop_test_facade E tid s1)))))"

text \<open>
  A pending watcher of the engine sees its process write \<open>lines\<close> and exit with \<open>rc\<close>:
  \<open>watch_interface_process\<close> with the callbacks \<open>_watch_and_handle_exit\<close> gives it. The
  callbacks of the engine write to the store and the journal and return.
\<close>

definition set_returncode :: "nat \<Rightarrow> int \<Rightarrow> state \<Rightarrow> state" where
  "set_returncode h rc s =
     (if h < length (procs s) \<and> returncode (procs s ! h) = None
      then s\<lparr>procs := (procs s)[h := (procs s ! h)\<lparr>returncode := Some rc\<rparr>]\<rparr>
      else s)"

definition watch_and_handle_exit :: "env \<Rightarrow> nat \<Rightarrow> string list \<Rightarrow> int \<Rightarrow> state \<Rightarrow> state" where
  "watch_and_handle_exit E t lines rc s =
     (if t < length (tasks s) \<and> t_status (tasks s ! t) = TaskPending then
        (let w = tasks s ! t;
             iproc = t_iproc w;
             s1 = set_returncode (process iproc) rc s;
             (e, s2) = watch_interface_process
                         (\<lambda>msg iface st. (Ok (), log_callback_facade E (t_tab_id w) msg iface st))
                         (\<lambda>code err st. (Ok (), handle_interface_process_exit E (t_tab_id w) (t_run_id w)
                                                   (interface_p iproc) (capture_id_p iproc) (pid_p iproc)
                                                   code err st))
                         (interface_p iproc)
                         \<lparr> has_stdout = True, reads = map Ok lines @ [Ok []],
                           wait_out = Ok (case proc_returncode s1 (process iproc) of
                                            Some c \<Rightarrow> c | None \<Rightarrow> rc),
                           returncode_attr = proc_returncode s1 (process iproc) \<rparr> s1
         in s2\<lparr>tasks := (tasks s2)[t := (tasks s2 ! t)\<lparr>t_status := TaskDone\<rparr>]\<rparr>)
      else s)"

section \<open>The operations of the engine, and invariants of the tab store\<close>

text \<open>
  The calls of the engine API and the events of the environment (a watched process ends,
  an auto-stop timer fires), each as one step on the state.
\<close>

datatype op =
    CreateTab "string option" "string option"
  | UpdateTab string "string option" "string option"
  | DeleteTab string
  | StartTest string "(string \<times> pyval) list"
  | StopTest string
  | ProcessExit nat "string list" int
  | AutoStop string string pyval
  | Subscribe
  | Unsubscribe nat

fun step :: "env \<Rightarrow> op \<Rightarrow> state \<Rightarrow> state" where
  "step E (CreateTab t p) s = snd (create_tab_facade E t p s)"
| "step E (UpdateTab tid t p) s = snd (update_tab_facade E tid t p s)"
| "step E (DeleteTab tid) s = snd (delete_tab_facade tid s)"
| "step E (StartTest tid pr) s = snd (start_test_facade E tid pr s)"
| "step E (StopTest tid) s = snd (stop_test_facade E tid s)"
| "step E (ProcessExit t lines rc) s = watch_and_handle_exit E t lines rc s"
| "step E (AutoStop tid rid secs) s = auto_stop_after_duration E tid rid secs s"
| "step E Subscribe s = snd (subscribe s)"
| "step E (Unsubscribe h) s = unsubscribe h s"

definition run_ops :: "env \<Rightarrow> op list \<Rightarrow> state \<Rightarrow> state" where
  "run_ops E ops s = fold (step E) ops s"

text \<open>
  The log of a tab is in order when the sequence numbers it holds are the contiguous range
  that ends at the counter \<open>log_seq\<close>, and it holds no more than \<open>m\<close> entries.
\<close>

definition log_inv :: "nat \<Rightarrow> Tab \<Rightarrow> bool" where
  "log_inv m t =
     (map seq (logs t) = [log_seq t - int (length (logs t)) + 1 .. log_seq t]
      \<and> length (logs t) \<le> m)"

text \<open>
  Every stored tab is stored under its own id and has its log in order, and no tab is
  stored under an id in \<open>X\<close>.
\<close>

definition tabs_ok :: "nat \<Rightarrow> string set \<Rightarrow> (string \<times> Tab) list \<Rightarrow> bool" where
  "tabs_ok m X ts = list_all (\<lambda>(k, t). id_t t = k \<and> log_inv m t \<and> k \<notin> X) ts"

definition tabs_inv :: "env \<Rightarrow> string set \<Rightarrow> state \<Rightarrow> bool" where
  "tabs_inv E X s = tabs_ok (max_log_entries E) X (tabs s)"

text \<open>
  What writing log lines for the tab \<open>tid\<close> can change: \<open>s'\<close> has the runs of \<open>s\<close>, and
  its tabs are those of \<open>s\<close> but for the log, the last message and the time of the last
  update of the tab \<open>tid\<close>.
\<close>

definition log_ext :: "nat \<Rightarrow> Tab \<Rightarrow> Tab \<Rightarrow> bool" where
  "log_ext m t t' =
     (id_t t' = id_t t \<and> title t' = title t \<and> status t' = status t \<and> run t' = run t
      \<and> profile_id_t t' = profile_id_t t \<and> created_utc t' = created_utc t
      \<and> log_seq t \<le> log_seq t'
      \<and> (if log_inv m t then log_inv m t' else True))"

definition logged :: "env \<Rightarrow> string \<Rightarrow> state \<Rightarrow> state \<Rightarrow> bool" where
  "logged E tid s s' =
     (runs s' = runs s
      \<and> (case map_of (tabs s) tid of
            None \<Rightarrow> tabs s' = tabs s
          | Some t \<Rightarrow> list_ex (\<lambda>t'. tabs s' = AList.update tid t' (tabs s)
                                  \<and> log_ext (max_log_entries E) t t')
                        (map snd (tabs s'))))"

text \<open>The process \<open>h\<close> exists and \<open>kill()\<close> has been called on it.\<close>

definition killed :: "state \<Rightarrow> nat \<Rightarrow> bool" where
  "killed s h = (h < length (procs s) \<and> SIGKILL \<in> fst ` set (signals (procs s ! h)))"

section \<open>Concrete inputs\<close>

text \<open>A small environment and a few states, at which the theorems below are instantiated.\<close>

definition env0 :: env where
  "env0 = \<lparr> utcnow = (\<lambda>n. ''20260101T0000'' @ [digit_char (n div 10), digit_char n] @ ''Z''),
            uuid4 = (\<lambda>n. ''0123456789abcdef01234567890000'' @ [digit_char (n div 10), digit_char n]),
            spawn = (\<lambda>n cmd. Spawned (1000 + int n)),
            signal_result = (\<lambda>n h sg. SigOk),
            wait_result = (\<lambda>n h. Some 0),
            max_log_entries = 2,
            capture_dir = ''/captures'',
            tcpdump_bin = ''tcpdump'',
            float_of_str = (\<lambda>x. None),
            shlex_split = (\<lambda>x. Some [x]),
            shlex_join = join '' '',
            path_join = (\<lambda>d f. d @ ''/'' @ f),
            path_meta_csv = (\<lambda>f. f @ ''_meta.csv''),
            py_repr = (\<lambda>v. ''?''),
            exc_text = (\<lambda>e. ''invalid literal for int()'') \<rparr>"

definition s0 :: state where
  "s0 = \<lparr> ticks = 0, tabs = [], tabs_file = None, runs = [], procs = [], tasks = [],
          journal = [], listeners = [(0, [])], timers = [] \<rparr>"

definition s1 :: state where
  "s1 = snd (create_tab_facade env0 (Some ''abc'') None s0)"

definition id0 :: string where "id0 = ''0123456789abcdef0123456789000000''"

definition tab_abc :: Tab where
  "tab_abc = \<lparr> id_t = id0, title = ''abc'', status = IDLE,
       created_utc = ''20260101T000001Z'', updated_utc = ''20260101T000001Z'',
       profile_id_t = None, run = None, logs = [], log_seq = 0, last_message = None,
       profile = None \<rparr>"

text \<open>A tab with an open run on two interfaces, both processes running.\<close>

definition run_open :: Run where
  "run_open = new_Run ''r1'' (PStr ''p1'') ''20260101T000010Z''"

definition tab_running :: Tab where
  "tab_running = \<lparr> id_t = id0, title = ''abc'', status = RUNNING,
       created_utc = ''20260101T000001Z'', updated_utc = ''20260101T000012Z'',
       profile_id_t = None, run = Some run_open, logs = [], log_seq = 0, last_message = None,
       profile = None \<rparr>"

definition iproc0 :: InterfaceProcess where
  "iproc0 = \<lparr> process = 0, task = Some 0, filename_base_p = ''/captures/demo_eth0.pcap'',
       interface_p = ''eth0'', capture_id_p = ''c0'', pid_p = 1000 \<rparr>"

definition iproc1 :: InterfaceProcess where
  "iproc1 = \<lparr> process = 1, task = Some 1, filename_base_p = ''/captures/demo_eth1.pcap'',
       interface_p = ''eth1'', capture_id_p = ''c1'', pid_p = 1001 \<rparr>"

definition rt0 :: RunningTest where
  "rt0 = \<lparr> run_id = ''r1'', interfaces_rt = [''eth0'', ''eth1''], ring_file_size_mb_rt = 100,
       ring_file_count_rt = 10, bpf_filter_rt = [], processes = [iproc0, iproc1],
       test_metadata_file = None \<rparr>"

definition s_run :: state where
  "s_run = \<lparr> ticks = 30, tabs = [(id0, tab_running)], tabs_file = Some [tab_running],
       runs = [(id0, rt0)],
       procs = [\<lparr> p_pid = 1000, returncode = None, signals = [] \<rparr>,
                \<lparr> p_pid = 1001, returncode = None, signals = [] \<rparr>],
       tasks = [\<lparr> t_status = TaskPending, t_tab_id = id0, t_run_id = ''r1'', t_iproc = iproc0 \<rparr>,
                \<lparr> t_status = TaskPending, t_tab_id = id0, t_run_id = ''r1'', t_iproc = iproc1 \<rparr>],
       journal = [], listeners = [(0, [])], timers = [] \<rparr>"

text \<open>The same, once the two processes have exited with the codes \<open>c0\<close> and \<open>c1\<close>.\<close>

definition s_exited :: "int \<Rightarrow> int \<Rightarrow> state" where
  "s_exited c0 c1 =
     s_run\<lparr>procs := [\<lparr> p_pid = 1000, returncode = Some c0, signals = [] \<rparr>,
                       \<lparr> p_pid = 1001, returncode = Some c1, signals = [] \<rparr>]\<rparr>"

text \<open>
  The process of \<open>eth0\<close>, or of \<open>eth1\<close>, of that run exits with code 0 and its watcher
  reports the exit to the exit handler, with the error text \<open>err\<close> when it has one.
\<close>

definition exit_eth0 :: "string option \<Rightarrow> state \<Rightarrow> state" where
  "exit_eth0 err s =
     handle_interface_process_exit env0 id0 ''r1'' ''eth0'' ''c0'' 1000 (Some 0) err
       (set_returncode 0 0 s)"

definition exit_eth1 :: "string option \<Rightarrow> state \<Rightarrow> state" where
  "exit_eth1 err s =
     handle_interface_process_exit env0 id0 ''r1'' ''eth1'' ''c1'' 1001 (Some 0) err
       (set_returncode 1 0 s)"

text \<open>
  A profile with two interfaces, and an environment in which no capture binary can be
  started on \<open>eth1\<close>: the spawn of a command that names \<open>eth1\<close> raises
  \<open>FileNotFoundError\<close>.
\<close>

definition profile0 :: "(string \<times> pyval) list" where
  "profile0 = [(''id'', PStr ''p1''), (''name'', PStr ''Demo''),
               (''settings'', PDict [(''interfaces'', PList [PStr ''eth0'', PStr ''eth1''])])]"

definition env_fail :: env where
  "env_fail = env0\<lparr> spawn := (\<lambda>n cmd. if PStr ''eth1'' \<in> set cmd
                                          then SpawnFileNotFoundError ''tcpdump''
                                          else Spawned (1000 + int n)) \<rparr>"

section \<open>Properties\<close>

subsection \<open>Whitespace\<close>

lemma match_len_le: "match_len ws s \<le> length s"
proof (cases "List.find (\<lambda>w. take (length w) s = w) ws")
  case None
  then show ?thesis by (simp add: match_len_def)
next
  case (Some w)
  then have "take (length w) s = w" by (auto simp: find_Some_iff)
  then have "length (take (length w) s) = length w" by simp
  then have "length w \<le> length s" by simp
  with Some show ?thesis by (simp add: match_len_def)
qed

lemma drop_chars_Nil [simp]: "drop_chars ws [] = []"
  using match_len_le[of ws "[]"] by (simp add: drop_chars.simps)






lemma strip_abc: "strip ''abc'' = ''abc''"
  by (simp add: strip_def drop_chars.simps match_len_def whitespace_def)

subsection \<open>The log of a tab, and what writing log lines changes\<close>

lemma drop_upto: "drop n [i..j] = [i + int n..j]"
proof (induction n arbitrary: i)
  case 0
  then show ?case by simp
next
  case (Suc n)
  show ?case
  proof (cases "i \<le> j")
    case True
    then have "drop (Suc n) [i..j] = drop n [i+1..j]" by (simp add: upto_rec1)
    also have "\<dots> = [i + 1 + int n..j]" by (rule Suc.IH)
    finally show ?thesis by (simp add: add.commute add.left_commute)
  next
    case False
    then show ?thesis by simp
  qed
qed

lemma log_inv_append:
  assumes "log_inv m t"
  shows "log_inv m (t\<lparr> log_seq := log_seq t + 1,
                       logs := deque_append m (logs t)
                                 \<lparr> seq = log_seq t + 1, timestamp = ts, message = msg,
                                   tab_id = tid, interface_l = iface \<rparr>,
                       last_message := lm, updated_utc := now \<rparr>)"
proof -
  let ?e = "\<lparr> seq = log_seq t + 1, timestamp = ts, message = msg, tab_id = tid, interface_l = iface \<rparr>"
  let ?n = "length (logs t)"
  from assms have m: "map seq (logs t) = [log_seq t - int ?n + 1 .. log_seq t]" and l: "?n \<le> m"
    by (simp_all add: log_inv_def)
  have app: "map seq (logs t @ [?e]) = [log_seq t - int ?n + 1 .. log_seq t + 1]"
    using m by (simp add: upto_rec2)
  show ?thesis
  proof (cases "m = 0")
    case True
    then show ?thesis by (simp add: log_inv_def deque_append_def)
  next
    case False
    show ?thesis
    proof (cases "?n \<ge> m")
      case True
      with l have eq: "?n = m" by simp
      have "map seq (drop (Suc ?n - m) (logs t @ [?e])) = drop (Suc ?n - m) [log_seq t - int ?n + 1 .. log_seq t + 1]"
        using app by (simp only: drop_map[symmetric])
      then show ?thesis using False eq
        by (simp add: log_inv_def deque_append_def drop_upto drop_map)
    next
      case False
      then show ?thesis using \<open>m \<noteq> 0\<close> app
        by (simp add: log_inv_def deque_append_def)
    qed
  qed
qed


lemma tabs_ok_update:
  "tabs_ok m X ts \<Longrightarrow> id_t t = k \<Longrightarrow> log_inv m t \<Longrightarrow> k \<notin> X \<Longrightarrow> tabs_ok m X (AList.update k t ts)"
  by (induction ts) (auto simp: tabs_ok_def)

lemma tabs_ok_delete: "tabs_ok m X ts \<Longrightarrow> tabs_ok m X (AList.delete k ts)"
  by (induction ts) (auto simp: tabs_ok_def)

lemma tabs_ok_lookup:
  "tabs_ok m X ts \<Longrightarrow> map_of ts k = Some t \<Longrightarrow> id_t t = k \<and> log_inv m t \<and> k \<notin> X"
  by (induction ts) (auto simp: tabs_ok_def split: if_splits)

lemma keys_update_present:
  "map_of ts k = Some t \<Longrightarrow> map fst (AList.update k t' ts) = map fst ts"
  by (induction ts) (auto split: if_splits)

lemma log_inv_cong:
  "logs t' = logs t \<Longrightarrow> log_seq t' = log_seq t \<Longrightarrow> log_inv m t' = log_inv m t"
  by (simp add: log_inv_def)

lemma append_log_None: "map_of (tabs s) tid = None \<Longrightarrow> append_log E tid msg iface s = (None, s)"
  by (simp add: append_log_def)

lemma append_log_tabs:
  "map_of (tabs s) tid = Some tab \<Longrightarrow>
   \<exists>tab'. tabs (snd (append_log E tid msg iface s)) = AList.update tid tab' (tabs s)
     \<and> fst (append_log E tid msg iface s) \<noteq> None
     \<and> log_ext (max_log_entries E) tab tab' \<and> log_seq tab' = log_seq tab + 1"
  by (auto simp: append_log_def utcnow_iso_def save_state_locked_def Let_def log_ext_def
           intro: log_inv_append)

lemma append_log_frame [simp]:
  "runs (snd (append_log E tid msg iface s)) = runs s"
  "procs (snd (append_log E tid msg iface s)) = procs s"
  "tasks (snd (append_log E tid msg iface s)) = tasks s"
  "journal (snd (append_log E tid msg iface s)) = journal s"
  "timers (snd (append_log E tid msg iface s)) = timers s"
  "listeners (snd (append_log E tid msg iface s)) = listeners s"
  by (simp_all add: append_log_def utcnow_iso_def save_state_locked_def Let_def split: option.splits)


lemma log_ext_refl: "log_ext m t t"
  by (simp add: log_ext_def)

lemma log_ext_trans: "log_ext m t t' \<Longrightarrow> log_ext m t' t'' \<Longrightarrow> log_ext m t t''"
  by (auto simp: log_ext_def split: if_splits)

lemma loggedI:
  assumes "runs s' = runs s"
    and "map_of (tabs s) tid = None \<Longrightarrow> tabs s' = tabs s"
    and "\<And>t. map_of (tabs s) tid = Some t \<Longrightarrow>
            \<exists>t'. tabs s' = AList.update tid t' (tabs s) \<and> log_ext (max_log_entries E) t t'"
  shows "logged E tid s s'"
proof (cases "map_of (tabs s) tid")
  case None
  with assms show ?thesis by (simp add: logged_def)
next
  case (Some t)
  from assms(3)[OF Some] obtain t' where
    t: "tabs s' = AList.update tid t' (tabs s)" "log_ext (max_log_entries E) t t'" by blast
  have "map_of (tabs s') tid = Some t'" using t(1) by (simp add: update_conv')
  then have "t' \<in> snd ` set (tabs s')" by (force dest: map_of_SomeD)
  with t Some assms(1) show ?thesis
    by (auto simp: logged_def list_ex_iff)
qed

lemma loggedD:
  assumes "logged E tid s s'"
  shows "runs s' = runs s"
    and "map_of (tabs s) tid = None \<Longrightarrow> tabs s' = tabs s"
    and "map_of (tabs s) tid = Some t \<Longrightarrow>
            \<exists>t'. tabs s' = AList.update tid t' (tabs s) \<and> log_ext (max_log_entries E) t t'"
  using assms by (auto simp: logged_def list_ex_iff)

lemma logged_refl: "logged E tid s s"
proof (rule loggedI)
  fix t assume "map_of (tabs s) tid = Some t"
  then have "tabs s = AList.update tid t (tabs s)" by (simp add: update_triv)
  then show "\<exists>t'. tabs s = AList.update tid t' (tabs s) \<and> log_ext (max_log_entries E) t t'"
    using log_ext_refl by blast
qed simp_all

lemma logged_trans:
  assumes a: "logged E tid s s'" and b: "logged E tid s' s''"
  shows "logged E tid s s''"
proof (rule loggedI)
  show "runs s'' = runs s"
    using loggedD(1)[OF a] loggedD(1)[OF b] by simp
next
  assume n: "map_of (tabs s) tid = None"
  then have "tabs s' = tabs s" using loggedD(2)[OF a] by simp
  then show "tabs s'' = tabs s" using loggedD(2)[OF b] n by simp
next
  fix t assume t: "map_of (tabs s) tid = Some t"
  from loggedD(3)[OF a t] obtain t' where
    t': "tabs s' = AList.update tid t' (tabs s)" "log_ext (max_log_entries E) t t'" by blast
  then have "map_of (tabs s') tid = Some t'" by (simp add: update_conv')
  from loggedD(3)[OF b this] obtain t'' where
    t'': "tabs s'' = AList.update tid t'' (tabs s')" "log_ext (max_log_entries E) t' t''" by blast
  have "tabs s'' = AList.update tid t'' (tabs s)" using t'(1) t''(1) by simp
  moreover have "log_ext (max_log_entries E) t t''" using t'(2) t''(2) by (rule log_ext_trans)
  ultimately show "\<exists>t'. tabs s'' = AList.update tid t' (tabs s) \<and> log_ext (max_log_entries E) t t'"
    by blast
qed

lemma logged_fold:
  assumes "\<And>x st. logged E tid st (f x st)"
  shows "logged E tid s (fold f xs s)"
proof (induction xs arbitrary: s)
  case Nil
  show ?case by (simp add: logged_refl)
next
  case (Cons x xs)
  have "logged E tid s (f x s)" by (rule assms)
  moreover have "logged E tid (f x s) (fold f xs (f x s))" by (rule Cons.IH)
  ultimately show ?case by (simp add: logged_trans)
qed

lemma logged_frame:
  assumes "runs s' = runs s" "tabs s' = tabs s"
  shows "logged E tid s s'"
proof (rule loggedI)
  fix t assume "map_of (tabs s) tid = Some t"
  then have "tabs s' = AList.update tid t (tabs s)" using assms(2) by (simp add: update_triv)
  then show "\<exists>t'. tabs s' = AList.update tid t' (tabs s) \<and> log_ext (max_log_entries E) t t'"
    using log_ext_refl by blast
qed (use assms in simp_all)

lemma logged_append_log: "logged E tid s (snd (append_log E tid msg iface s))"
proof (rule loggedI)
  fix t assume t: "map_of (tabs s) tid = Some t"
  from append_log_tabs[OF t, of E msg iface]
  show "\<exists>t'. tabs (snd (append_log E tid msg iface s)) = AList.update tid t' (tabs s)
           \<and> log_ext (max_log_entries E) t t'"
    by blast
qed (simp_all add: append_log_None)

lemma broadcast_frame [simp]:
  "runs (broadcast ev s) = runs s" "tasks (broadcast ev s) = tasks s"
  "timers (broadcast ev s) = timers s" "tabs (broadcast ev s) = tabs s"
  "procs (broadcast ev s) = procs s" "journal (broadcast ev s) = journal s"
  "ticks (broadcast ev s) = ticks s" "tabs_file (broadcast ev s) = tabs_file s"
  by (simp_all add: broadcast_def)

lemma logged_append_log_facade: "logged E tid s (snd (append_log_facade E tid msg iface s))"
proof -
  have l: "logged E tid s (snd (append_log E tid msg iface s))" by (rule logged_append_log)
  obtain r s1 where a: "append_log E tid msg iface s = (r, s1)" by (cases "append_log E tid msg iface s")
  have "logged E tid s1 (snd (append_log_facade E tid msg iface s))"
    using a by (auto simp: append_log_facade_def get_tab_snapshot_def Let_def
                     intro!: logged_frame split: option.splits)
  with l a show ?thesis by (auto intro: logged_trans)
qed

lemma logged_log_callback_facade: "logged E tid s (log_callback_facade E tid msg iface s)"
  by (simp add: log_callback_facade_def logged_append_log_facade)


lemma logged_step:
  assumes "logged E tid s sa" and "logged E tid sa sb"
  shows "logged E tid s sb"
  using assms by (rule logged_trans)

lemma logged_log [intro!]:
  "logged E tid s sa \<Longrightarrow> logged E tid s (log_callback_facade E tid msg iface sa)"
  by (erule logged_trans) (rule logged_log_callback_facade)

lemma logged_append_facade [intro!]:
  "logged E tid s sa \<Longrightarrow> logged E tid s (snd (append_log_facade E tid msg iface sa))"
  by (erule logged_trans) (rule logged_append_log_facade)

lemma logged_send_signal [intro!]:
  "logged E tid s sa \<Longrightarrow> logged E tid s (snd (send_signal E h sg sa))"
  by (erule logged_trans) (simp add: send_signal_def Let_def logged_frame)

lemma logged_wait_for_exit [intro!]:
  "logged E tid s sa \<Longrightarrow> logged E tid s (snd (wait_for_exit E h sa))"
  by (erule logged_trans) (simp add: wait_for_exit_def Let_def logged_frame)

lemma logged_utcnow [intro!]:
  "logged E tid s sa \<Longrightarrow> logged E tid s (snd (utcnow_iso E sa))"
  by (erule logged_trans) (simp add: utcnow_iso_def logged_frame)

lemma logged_uuid [intro!]:
  "logged E tid s sa \<Longrightarrow> logged E tid s (snd (uuid4_hex E sa))"
  by (erule logged_trans) (simp add: uuid4_hex_def logged_frame)

lemma logged_spawn [intro!]:
  "logged E tid s sa \<Longrightarrow> logged E tid s (snd (create_subprocess_exec E cmd sa))"
  by (erule logged_trans) (simp add: create_subprocess_exec_def logged_frame)

lemma logged_journal [intro!]:
  "logged E tid s sa \<Longrightarrow> logged E tid s (write_capture_metadata row tmf sa)"
  by (erule logged_trans) (simp add: write_capture_metadata_def logged_frame)

lemma logged_procs_update [intro!]:
  "logged E tid s sa \<Longrightarrow> logged E tid s (sa\<lparr>procs := ps\<rparr>)"
  by (erule logged_trans) (simp add: logged_frame)

lemma logged_broadcast [intro!]:
  "logged E tid s sa \<Longrightarrow> logged E tid s (broadcast ev sa)"
  by (erule logged_trans) (simp add: logged_frame)

lemma logged_fold_ext:
  assumes "\<And>x st. logged E tid s st \<Longrightarrow> logged E tid s (f x st)"
    and "logged E tid s sa"
  shows "logged E tid s (fold f xs sa)"
  using assms(2)
proof (induction xs arbitrary: sa)
  case Nil
  then show ?case by simp
next
  case (Cons x xs)
  then show ?case using assms(1) by simp
qed

lemma logged_terminate [intro!]:
  "logged E tid s sa \<Longrightarrow>
   logged E tid s (terminate_process_safely E (log_callback_facade E tid) h iface sa)"
  by (auto simp: terminate_process_safely_def Let_def split_beta split: signal_outcome.splits)

lemma logged_cleanup [intro!]:
  "logged E tid s sa \<Longrightarrow> logged E tid s (cleanup_started_processes E iprocs sa)"
  by (induction iprocs arbitrary: sa) auto

lemma logged_spawn_all [intro!]:
  "logged E tid s sa \<Longrightarrow>
   logged E tid s (snd (spawn_all E (log_callback_facade E tid) g row ctxs acc sa))"
proof (induction ctxs arbitrary: acc sa g)
  case Nil
  then show ?case by simp
next
  case (Cons ctx ctxs)
  show ?case
    using Cons.prems
    by (auto simp: Let_def split_beta split: spawn_result.splits intro!: Cons.IH)
qed


lemma append_log_facade_frame [simp]:
  "runs (snd (append_log_facade E tid msg iface s)) = runs s"
  "procs (snd (append_log_facade E tid msg iface s)) = procs s"
  "tasks (snd (append_log_facade E tid msg iface s)) = tasks s"
  "journal (snd (append_log_facade E tid msg iface s)) = journal s"
  "timers (snd (append_log_facade E tid msg iface s)) = timers s"
proof -
  obtain r sa where a: "append_log E tid msg iface s = (r, sa)" by (cases "append_log E tid msg iface s")
  then have "sa = snd (append_log E tid msg iface s)" by simp
  then have f: "runs sa = runs s" "procs sa = procs s" "tasks sa = tasks s" "journal sa = journal s"
    "timers sa = timers s" by simp_all
  show "runs (snd (append_log_facade E tid msg iface s)) = runs s"
    "procs (snd (append_log_facade E tid msg iface s)) = procs s"
    "tasks (snd (append_log_facade E tid msg iface s)) = tasks s"
    "journal (snd (append_log_facade E tid msg iface s)) = journal s"
    "timers (snd (append_log_facade E tid msg iface s)) = timers s"
    using a f by (auto simp: append_log_facade_def Let_def split: option.splits)
qed

lemma logged_runs: "logged E tid s s' \<Longrightarrow> runs s' = runs s"
  by (rule loggedD(1))

lemma logged_tab:
  assumes "logged E tid s s'" and "map_of (tabs s) tid = Some t"
  shows "\<exists>t'. map_of (tabs s') tid = Some t' \<and> log_ext (max_log_entries E) t t'"
proof -
  from loggedD(3)[OF assms] obtain t' where
    "tabs s' = AList.update tid t' (tabs s)" "log_ext (max_log_entries E) t t'" by blast
  then show ?thesis by (auto simp: update_conv')
qed

lemma logged_other:
  assumes "logged E tid s s'" and "k \<noteq> tid"
  shows "map_of (tabs s') k = map_of (tabs s) k"
proof (cases "map_of (tabs s) tid")
  case None
  then show ?thesis using loggedD(2)[OF assms(1)] by simp
next
  case (Some t)
  from loggedD(3)[OF assms(1) Some] obtain t' where
    "tabs s' = AList.update tid t' (tabs s)" by blast
  then show ?thesis using assms(2) by (simp add: update_conv')
qed

lemma logged_keys:
  assumes "logged E tid s s'"
  shows "map fst (tabs s') = map fst (tabs s)"
proof (cases "map_of (tabs s) tid")
  case None
  then show ?thesis using loggedD(2)[OF assms(1)] by simp
next
  case (Some t)
  from loggedD(3)[OF assms(1) Some] obtain t' where
    "tabs s' = AList.update tid t' (tabs s)" by blast
  then show ?thesis using Some by (simp add: keys_update_present)
qed

lemma logged_inv:
  assumes "logged E tid s s'" and "tabs_inv E X s"
  shows "tabs_inv E X s'"
proof (cases "map_of (tabs s) tid")
  case None
  then show ?thesis using loggedD(2)[OF assms(1)] assms(2) by (simp add: tabs_inv_def)
next
  case (Some t)
  from loggedD(3)[OF assms(1) Some] obtain t' where
    t': "tabs s' = AList.update tid t' (tabs s)" "log_ext (max_log_entries E) t t'" by blast
  from assms(2) Some have "id_t t = tid \<and> log_inv (max_log_entries E) t \<and> tid \<notin> X"
    by (simp add: tabs_inv_def tabs_ok_lookup)
  with t'(2) have "id_t t' = tid" "log_inv (max_log_entries E) t'" "tid \<notin> X"
    by (simp_all add: log_ext_def)
  then show ?thesis using assms(2) t'(1) by (simp add: tabs_inv_def tabs_ok_update)
qed

lemma logged_cancel_task [intro!]:
  "logged E tid s sa \<Longrightarrow> logged E tid s (cancel_task t sa)"
  by (erule logged_trans) (simp add: cancel_task_def logged_frame)

lemma stop_test_None:
  "map_of (runs s) tid = None \<Longrightarrow> stop_test E lc tid s = (NotStopped, s)"
  by (simp add: stop_test_def)

lemma stop_test_Some:
  assumes "map_of (runs s) tid = Some st"
  shows "\<exists>codes. fst (stop_test E (log_callback_facade E tid) tid s)
                    = Stopped (run_id st) codes (test_metadata_file st)"
    and "logged E tid (s\<lparr>runs := AList.delete tid (runs s)\<rparr>)
           (snd (stop_test E (log_callback_facade E tid) tid s))"
  using assms
  by (auto simp: stop_test_def Let_def split_beta
           intro!: logged_fold_ext logged_refl split: option.splits)


lemma stop_test_facade_idle:
  assumes "map_of (tabs s) tid = Some tab" and "map_of (runs s) tid = None"
  shows "stop_test_facade E tid s = (Inr tab, s)"
  using assms by (simp add: stop_test_facade_def stop_test_None get_tab_object_def)

lemma stop_test_facade_stopped:
  assumes tab: "map_of (tabs s) tid = Some tab" and st: "map_of (runs s) tid = Some st"
  shows "\<exists>codes sa tab1.
           stop_test E (log_callback_facade E tid) tid s
             = (Stopped (run_id st) codes (test_metadata_file st), sa)
           \<and> runs sa = AList.delete tid (runs s)
           \<and> map_of (tabs sa) tid = Some tab1 \<and> log_ext (max_log_entries E) tab tab1
           \<and> logged E tid (s\<lparr>runs := AList.delete tid (runs s)\<rparr>) sa"
proof -
  let ?r = "stop_test E (log_callback_facade E tid) tid s"
  from stop_test_Some(1)[OF st, of E] obtain codes where
    c: "fst ?r = Stopped (run_id st) codes (test_metadata_file st)" by blast
  have l: "logged E tid (s\<lparr>runs := AList.delete tid (runs s)\<rparr>) (snd ?r)"
    by (rule stop_test_Some(2)[OF st])
  have r: "runs (snd ?r) = AList.delete tid (runs s)" using logged_runs[OF l] by simp
  from logged_tab[OF l] tab obtain tab1 where
    "map_of (tabs (snd ?r)) tid = Some tab1" "log_ext (max_log_entries E) tab tab1" by auto
  with c l r show ?thesis by (cases ?r) auto
qed

lemma stop_test_facade_post:
  assumes tab: "map_of (tabs s) tid = Some tab"
  shows "map_of (runs (snd (stop_test_facade E tid s))) tid = None
       \<and> (\<exists>tab'. map_of (tabs (snd (stop_test_facade E tid s))) tid = Some tab'
                  \<and> fst (stop_test_facade E tid s) = Inr tab')"
proof (cases "map_of (runs s) tid")
  case None
  with tab show ?thesis by (simp add: stop_test_facade_idle)
next
  case (Some st)
  from stop_test_facade_stopped[OF tab Some, of E] obtain codes sa tab1 where
    a: "stop_test E (log_callback_facade E tid) tid s
          = (Stopped (run_id st) codes (test_metadata_file st), sa)"
       "runs sa = AList.delete tid (runs s)" "map_of (tabs sa) tid = Some tab1"
    by blast
  then show ?thesis
    by (auto simp: stop_test_facade_def get_tab_object_def Let_def split_beta put_tab_def
          save_state_locked_def utcnow_iso_def update_conv' delete_conv' split: option.splits)
qed

subsection \<open>The concrete states\<close>

lemmas tab_defs = create_tab_def update_tab_def create_tab_facade_def update_tab_facade_def
  uuid4_hex_def utcnow_iso_def save_state_locked_def broadcast_def or_default_def Let_def

lemmas demo_defs = env0_def s0_def s1_def id0_def tab_abc_def digit_char_def IDLE_def

lemma s1_tabs: "tabs s1 = [(id0, tab_abc)]"
  by (simp add: demo_defs tab_defs strip_abc)

subsection \<open>C1: the status a finished run gives its tab\<close>

lemma proc_returncode_cong: "procs s' = procs s \<Longrightarrow> proc_returncode s' h = proc_returncode s h"
  by (simp add: proc_returncode_def)

lemma any_failed_iff:
  "any_failed codes \<longleftrightarrow> (\<exists>c \<in> set codes. \<exists>i. c = Some i \<and> i \<noteq> 0)"
  by (auto simp: any_failed_def list_ex_iff split: option.splits)

lemma finalize_run_open:
  assumes tab: "map_of (tabs s) tid = Some tab" and r: "run tab = Some r" and rid: "id_r r = rid"
    and open_run: "\<not> truthy_str (finished_utc r)"
  shows "\<exists>tab' r'. map_of (tabs (finalize_run E tid rid err codes s)) tid = Some tab'
           \<and> status tab' = (if truthy_str err \<or> any_failed codes then FAILED else COMPLETED)
           \<and> run tab' = Some r' \<and> exit_codes r' = Some codes
           \<and> error r' = err \<and> finished_utc r' \<noteq> None
           \<and> map_of (runs (finalize_run E tid rid err codes s)) tid = None"
proof -
  define st' where "st' = (if truthy_str err then FAILED else if any_failed codes then FAILED else COMPLETED)"
  define tab' where "tab' = tab\<lparr> run := Some (r\<lparr> finished_utc := Some (fst (utcnow_iso E s)),
                                                   exit_codes := Some codes,
                                                   exit_code := first_code codes,
                                                   error := err \<rparr>),
                                  status := st' \<rparr>"
  define sd where "sd = broadcast (TabUpdated tab')
                          (save_state_locked (snd (remove_run tid (put_tab tid tab' (snd (utcnow_iso E s))))))"
  define msg where "msg = ''Testlauf '' @ rid @ '' beendet (Status: '' @ st'
                 @ '', Exit-Codes: ['' @ format_exit_codes codes @ '']).''"
  have res: "finalize_run E tid rid err codes s = snd (append_log_facade E tid msg None sd)"
    unfolding finalize_run_def sd_def tab'_def st'_def msg_def
    using tab r rid open_run
    by (simp add: Let_def split_beta get_tab_object_def)
  have sd_tab: "map_of (tabs sd) tid = Some tab'"
    by (simp add: sd_def save_state_locked_def remove_run_def put_tab_def utcnow_iso_def update_conv')
  have sd_runs: "map_of (runs sd) tid = None"
    by (simp add: sd_def save_state_locked_def remove_run_def put_tab_def utcnow_iso_def delete_conv')
  have l2: "logged E tid sd (snd (append_log_facade E tid msg None sd))"
    by (rule logged_append_log_facade)
  from logged_tab[OF l2 sd_tab] obtain tabf where
    tabf: "map_of (tabs (snd (append_log_facade E tid msg None sd))) tid = Some tabf"
      "log_ext (max_log_entries E) tab' tabf" by blast
  have "status tabf = st'" "run tabf = run tab'" using tabf(2) by (simp_all add: log_ext_def tab'_def)
  moreover have "map_of (runs (snd (append_log_facade E tid msg None sd))) tid = None"
    using sd_runs by simp
  ultimately show ?thesis
    using tabf(1) res by (auto simp: tab'_def st'_def utcnow_iso_def)
qed


lemma handle_exit_all_done:
  assumes tab: "map_of (tabs s) tid = Some tab"
    and st: "map_of (runs s) tid = Some st"
    and all_done: "list_all (\<lambda>iproc. proc_returncode s (process iproc) \<noteq> None) (processes st)"
  shows "\<exists>sc tabc. handle_interface_process_exit E tid rid iface cid p rc err s
             = finalize_run E tid rid err (map (\<lambda>iproc. proc_returncode s (process iproc)) (processes st)) sc
           \<and> map_of (tabs sc) tid = Some tabc \<and> log_ext (max_log_entries E) tab tabc"
proof -
  define msg where "msg = tag iface @ ''tcpdump beendet (Exit-Code: ''
                @ (case rc of None \<Rightarrow> emdash | Some c \<Rightarrow> str_int c) @ '')''"
  define sb where "sb = write_capture_metadata (stop_row (fst (utcnow_iso E s)) p cid iface)
                          (get_test_metadata_file tid s) (snd (utcnow_iso E s))"
  define sc where "sc = snd (append_log_facade E tid msg (Some iface) sb)"
  have sb: "tabs sb = tabs s" "runs sb = runs s" "procs sb = procs s"
    by (simp_all add: sb_def write_capture_metadata_def utcnow_iso_def)
  have l: "logged E tid sb sc" unfolding sc_def by (rule logged_append_log_facade)
  from logged_tab[OF l] tab sb obtain tabc where
    tabc: "map_of (tabs sc) tid = Some tabc" "log_ext (max_log_entries E) tab tabc" by auto
  have sc: "runs sc = runs s" "procs sc = procs s" using sb by (simp_all add: sc_def)
  have chk: "check_all_processes_done tid sc
               = (True, map (\<lambda>iproc. proc_returncode s (process iproc)) (processes st))"
  proof -
    have prc: "\<And>h. proc_returncode sc h = proc_returncode s h"
      using sc(2) by (simp add: proc_returncode_def)
    show ?thesis using st all_done sc(1)
      by (simp add: check_all_processes_done_def prc)
  qed
  have "handle_interface_process_exit E tid rid iface cid p rc err s
          = (let (all_done, codes) = check_all_processes_done tid sc
             in if \<not> all_done then sc else finalize_run E tid rid err codes sc)"
    unfolding handle_interface_process_exit_def sc_def sb_def msg_def
    by (simp add: Let_def split_beta)
  with chk tabc show ?thesis by auto
qed

lemma handle_exit_finalizes:
  assumes tab: "map_of (tabs s) tid = Some tab" and r: "run tab = Some r" and rid: "id_r r = rid"
    and open_run: "\<not> truthy_str (finished_utc r)"
    and st: "map_of (runs s) tid = Some st"
    and all_done: "list_all (\<lambda>iproc. proc_returncode s (process iproc) \<noteq> None) (processes st)"
  shows "\<exists>tab' r'. map_of (tabs (handle_interface_process_exit E tid rid iface cid p rc err s)) tid = Some tab'
           \<and> status tab' = (if truthy_str err
                                \<or> any_failed (map (\<lambda>iproc. proc_returncode s (process iproc)) (processes st))
                             then FAILED else COMPLETED)
           \<and> run tab' = Some r'
           \<and> exit_codes r' = Some (map (\<lambda>iproc. proc_returncode s (process iproc)) (processes st))
           \<and> error r' = err \<and> finished_utc r' \<noteq> None
           \<and> map_of (runs (handle_interface_process_exit E tid rid iface cid p rc err s)) tid = None"
proof -
  from handle_exit_all_done[OF tab st all_done, of E rid iface cid p rc err] obtain sc tabc where
    h: "handle_interface_process_exit E tid rid iface cid p rc err s
          = finalize_run E tid rid err (map (\<lambda>iproc. proc_returncode s (process iproc)) (processes st)) sc"
       "map_of (tabs sc) tid = Some tabc" "log_ext (max_log_entries E) tab tabc" by blast
  have "run tabc = Some r" using h(3) r by (simp add: log_ext_def)
  from finalize_run_open[OF h(2) this rid open_run] show ?thesis
    unfolding h(1) .
qed

lemma stop_facade_finalizes:
  assumes tab: "map_of (tabs s) tid = Some tab" and r: "run tab = Some r"
    and open_run: "\<not> truthy_str (finished_utc r)"
    and st: "map_of (runs s) tid = Some st"
  shows "\<exists>tab' r' codes. fst (stop_test_facade E tid s) = Inr tab'
           \<and> fst (stop_test E (log_callback_facade E tid) tid s)
                = Stopped (run_id st) codes (test_metadata_file st)
           \<and> map_of (tabs (snd (stop_test_facade E tid s))) tid = Some tab'
           \<and> status tab' = (if any_failed codes then FAILED else COMPLETED)
           \<and> run tab' = Some r' \<and> exit_codes r' = Some codes \<and> finished_utc r' \<noteq> None"
proof -
  from stop_test_facade_stopped[OF tab st, of E] obtain codes sa tab1 where
    a: "stop_test E (log_callback_facade E tid) tid s
          = (Stopped (run_id st) codes (test_metadata_file st), sa)"
       "map_of (tabs sa) tid = Some tab1" "log_ext (max_log_entries E) tab tab1"
    by blast
  have "run tab1 = Some r" using a(3) r by (simp add: log_ext_def)
  with a(1,2) open_run show ?thesis
    by (auto simp: stop_test_facade_def get_tab_object_def Let_def split_beta put_tab_def
          save_state_locked_def utcnow_iso_def update_conv')
qed


lemma status_values: "FAILED \<noteq> COMPLETED" "COMPLETED \<noteq> FAILED"
  by (simp_all add: FAILED_def COMPLETED_def)

lemma any_failed_reported:
  "list_all (\<lambda>c. c \<noteq> None) codes \<Longrightarrow> any_failed codes \<longleftrightarrow> \<not> list_all (\<lambda>c. c = Some 0) codes"
  by (induction codes) (auto simp: any_failed_def)

text \<open>
  The call that finalizes. Let the tab \<open>tid\<close> hold an open run \<open>r\<close> (no finish time yet) that the Run
  Executor tracks as \<open>st\<close>.
  When every process of the run has a return code and the exit handler runs for the run
  (\<open>id_r r = rid\<close>), in whatever order the processes exited and for whichever of them it is
  called, it sets the status of the tab to "completed" if and only if every return code
  is 0 and the handler was given no error text, and to "failed" otherwise.
  When instead an explicit stop finalizes the run, the status is set by the same rule from
  the exit codes the stop collected: if every process reported a code, "completed" if and
  only if all are 0, and "failed" otherwise. (No error text exists on the stop path. An
  error text is set when it is a non-empty text, as \<open>if error:\<close> reads it.)
\<close>

theorem finalization_status:
  assumes tab: "map_of (tabs s) tid = Some tab" and r: "run tab = Some r"
    and open_run: "\<not> truthy_str (finished_utc r)"
    and st: "map_of (runs s) tid = Some st"
  shows "(id_r r = rid
          \<and> list_all (\<lambda>iproc. proc_returncode s (process iproc) \<noteq> None) (processes st) \<longrightarrow>
            (\<exists>tab'. map_of (tabs (handle_interface_process_exit E tid rid iface cid p rc err s)) tid
                       = Some tab'
               \<and> (status tab' = COMPLETED \<longleftrightarrow>
                    list_all (\<lambda>iproc. proc_returncode s (process iproc) = Some 0) (processes st)
                    \<and> \<not> truthy_str err)
               \<and> (status tab' = FAILED \<longleftrightarrow>
                    \<not> (list_all (\<lambda>iproc. proc_returncode s (process iproc) = Some 0) (processes st)
                        \<and> \<not> truthy_str err))))
       \<and> (\<exists>tab' codes.
             fst (stop_test E (log_callback_facade E tid) tid s)
               = Stopped (run_id st) codes (test_metadata_file st)
             \<and> fst (stop_test_facade E tid s) = Inr tab'
             \<and> map_of (tabs (snd (stop_test_facade E tid s))) tid = Some tab'
             \<and> (list_all (\<lambda>c. c \<noteq> None) codes \<longrightarrow>
                  (status tab' = COMPLETED \<longleftrightarrow> list_all (\<lambda>c. c = Some 0) codes)
                  \<and> (status tab' = FAILED \<longleftrightarrow> \<not> list_all (\<lambda>c. c = Some 0) codes)))"
proof (intro conjI impI)
  assume a: "id_r r = rid
     \<and> list_all (\<lambda>iproc. proc_returncode s (process iproc) \<noteq> None) (processes st)"
  let ?codes = "map (\<lambda>iproc. proc_returncode s (process iproc)) (processes st)"
  from a have rep: "list_all (\<lambda>c. c \<noteq> None) ?codes" by (simp add: list_all_iff)
  have z: "list_all (\<lambda>c. c = Some 0) ?codes
             \<longleftrightarrow> list_all (\<lambda>iproc. proc_returncode s (process iproc) = Some 0) (processes st)"
    by (simp add: list_all_iff)
  from a handle_exit_finalizes[OF tab r _ open_run st, of rid E iface cid p rc err]
  obtain tab' where
    t: "map_of (tabs (handle_interface_process_exit E tid rid iface cid p rc err s)) tid = Some tab'"
       "status tab' = (if truthy_str err \<or> any_failed ?codes then FAILED else COMPLETED)"
    by blast
  from t(2) any_failed_reported[OF rep] z
  have "(status tab' = COMPLETED \<longleftrightarrow>
           list_all (\<lambda>iproc. proc_returncode s (process iproc) = Some 0) (processes st)
           \<and> \<not> truthy_str err)
      \<and> (status tab' = FAILED \<longleftrightarrow>
           \<not> (list_all (\<lambda>iproc. proc_returncode s (process iproc) = Some 0) (processes st)
               \<and> \<not> truthy_str err))"
    by (auto simp: status_values)
  with t(1) show "\<exists>tab'. map_of (tabs (handle_interface_process_exit E tid rid iface cid p rc err s)) tid
                       = Some tab'
               \<and> (status tab' = COMPLETED \<longleftrightarrow>
                    list_all (\<lambda>iproc. proc_returncode s (process iproc) = Some 0) (processes st)
                    \<and> \<not> truthy_str err)
               \<and> (status tab' = FAILED \<longleftrightarrow>
                    \<not> (list_all (\<lambda>iproc. proc_returncode s (process iproc) = Some 0) (processes st)
                        \<and> \<not> truthy_str err))"
    by blast
next
  from stop_facade_finalizes[OF tab r open_run st, of E] obtain tab' codes where
    t: "fst (stop_test_facade E tid s) = Inr tab'"
       "fst (stop_test E (log_callback_facade E tid) tid s)
          = Stopped (run_id st) codes (test_metadata_file st)"
       "map_of (tabs (snd (stop_test_facade E tid s))) tid = Some tab'"
       "status tab' = (if any_failed codes then FAILED else COMPLETED)"
    by blast
  have "list_all (\<lambda>c. c \<noteq> None) codes \<longrightarrow>
          (status tab' = COMPLETED \<longleftrightarrow> list_all (\<lambda>c. c = Some 0) codes)
          \<and> (status tab' = FAILED \<longleftrightarrow> \<not> list_all (\<lambda>c. c = Some 0) codes)"
    using t(4) any_failed_reported[of codes] by (auto simp: status_values)
  with t(1-3) show "\<exists>tab' codes.
             fst (stop_test E (log_callback_facade E tid) tid s)
               = Stopped (run_id st) codes (test_metadata_file st)
             \<and> fst (stop_test_facade E tid s) = Inr tab'
             \<and> map_of (tabs (snd (stop_test_facade E tid s))) tid = Some tab'
             \<and> (list_all (\<lambda>c. c \<noteq> None) codes \<longrightarrow>
                  (status tab' = COMPLETED \<longleftrightarrow> list_all (\<lambda>c. c = Some 0) codes)
                  \<and> (status tab' = FAILED \<longleftrightarrow> \<not> list_all (\<lambda>c. c = Some 0) codes))"
    by blast
qed

lemma s_exited_facts:
  "map_of (tabs (s_exited c0 c1)) id0 = Some tab_running"
  "run tab_running = Some run_open"
  "\<not> truthy_str (finished_utc run_open)"
  "map_of (runs (s_exited c0 c1)) id0 = Some rt0"
  "id_r run_open = ''r1''"
  "processes rt0 = [iproc0, iproc1]"
  "proc_returncode (s_exited c0 c1) (process iproc0) = Some c0"
  "proc_returncode (s_exited c0 c1) (process iproc1) = Some c1"
  by (simp_all add: s_exited_def s_run_def tab_running_def run_open_def new_Run_def truthy_str_def
        rt0_def proc_returncode_def iproc0_def iproc1_def)

text \<open>
  The theorem at the run of \<open>s_exited\<close>: with the codes 0 and 1 the tab fails, with 0 and 0
  it completes.
\<close>

theorem finalization_status_witness:
  "map_of (tabs (s_exited 0 1)) id0 = Some tab_running \<and> run tab_running = Some run_open
   \<and> \<not> truthy_str (finished_utc run_open) \<and> map_of (runs (s_exited 0 1)) id0 = Some rt0
   \<and> map (\<lambda>iproc. proc_returncode (s_exited 0 1) (process iproc)) (processes rt0) = [Some 0, Some 1]
   \<and> map_option status
        (map_of (tabs (handle_interface_process_exit env0 id0 ''r1'' ''eth1'' ''c1'' 1001 (Some 1) None
                         (s_exited 0 1))) id0) = Some FAILED
   \<and> map_option status
        (map_of (tabs (handle_interface_process_exit env0 id0 ''r1'' ''eth1'' ''c1'' 1001 (Some 0) None
                         (s_exited 0 0))) id0) = Some COMPLETED"
proof -
  have e: "\<not> truthy_str None" by (simp add: truthy_str_def)
  show ?thesis
    using finalization_status[OF s_exited_facts(1)[of 0 1] s_exited_facts(2,3) s_exited_facts(4)[of 0 1],
        where rid = "''r1''" and E = env0 and iface = "''eth1''" and cid = "''c1''" and p = 1001
          and rc = "Some 1" and err = None]
      finalization_status[OF s_exited_facts(1)[of 0 0] s_exited_facts(2,3) s_exited_facts(4)[of 0 0],
        where rid = "''r1''" and E = env0 and iface = "''eth1''" and cid = "''c1''" and p = 1001
          and rc = "Some 0" and err = None]
      e
    by (auto simp: s_exited_facts)
qed


lemma set_returncode_frame [simp]:
  "tabs (set_returncode h c s) = tabs s"
  "runs (set_returncode h c s) = runs s"
  "length (procs (set_returncode h c s)) = length (procs s)"
  by (simp_all add: set_returncode_def)

lemma proc_returncode_set:
  "proc_returncode (set_returncode h c s) k =
     (if k = h \<and> h < length (procs s) \<and> proc_returncode s h = None then Some c
      else proc_returncode s k)"
  by (auto simp: set_returncode_def proc_returncode_def nth_list_update)

lemma handle_exit_pending:
  assumes st: "map_of (runs s) tid = Some st"
    and pending: "\<not> list_all (\<lambda>iproc. proc_returncode s (process iproc) \<noteq> None) (processes st)"
  shows "logged E tid s (handle_interface_process_exit E tid rid iface cid p rc err s)"
    and "procs (handle_interface_process_exit E tid rid iface cid p rc err s) = procs s"
proof -
  define msg where "msg = tag iface @ ''tcpdump beendet (Exit-Code: ''
                @ (case rc of None \<Rightarrow> emdash | Some c \<Rightarrow> str_int c) @ '')''"
  define sb where "sb = write_capture_metadata (stop_row (fst (utcnow_iso E s)) p cid iface)
                          (get_test_metadata_file tid s) (snd (utcnow_iso E s))"
  define sc where "sc = snd (append_log_facade E tid msg (Some iface) sb)"
  have sb: "tabs sb = tabs s" "runs sb = runs s" "procs sb = procs s"
    by (simp_all add: sb_def write_capture_metadata_def utcnow_iso_def)
  have l0: "logged E tid s sb" using sb by (simp add: logged_frame)
  have l: "logged E tid sb sc" unfolding sc_def by (rule logged_append_log_facade)
  have sc: "runs sc = runs s" "procs sc = procs s" using sb by (simp_all add: sc_def)
  have chk: "fst (check_all_processes_done tid sc) = False"
  proof -
    have prc: "\<And>h. proc_returncode sc h = proc_returncode s h"
      using sc(2) by (simp add: proc_returncode_def)
    show ?thesis using st pending sc(1)
      by (simp add: check_all_processes_done_def prc)
  qed
  have "handle_interface_process_exit E tid rid iface cid p rc err s
          = (let (all_done, codes) = check_all_processes_done tid sc
             in if \<not> all_done then sc else finalize_run E tid rid err codes sc)"
    unfolding handle_interface_process_exit_def sc_def sb_def msg_def
    by (simp add: Let_def split_beta)
  with chk have res: "handle_interface_process_exit E tid rid iface cid p rc err s = sc"
    by (simp add: split_beta)
  show "logged E tid s (handle_interface_process_exit E tid rid iface cid p rc err s)"
    unfolding res using l0 l by (rule logged_trans)
  show "procs (handle_interface_process_exit E tid rid iface cid p rc err s) = procs s"
    unfolding res by (rule sc(2))
qed

lemma s_run_facts:
  "map_of (tabs s_run) id0 = Some tab_running"
  "map_of (runs s_run) id0 = Some rt0"
  "proc_returncode s_run 0 = None" "proc_returncode s_run (Suc 0) = None"
  "length (procs s_run) = 2"
  by (simp_all add: s_run_def proc_returncode_def)

lemma rt0_processes: "processes rt0 = [iproc0, iproc1]" "process iproc0 = 0" "process iproc1 = 1"
  by (simp_all add: rt0_def iproc0_def iproc1_def)

lemma run_open_facts:
  "run tab_running = Some run_open" "id_r run_open = ''r1''"
  "\<not> truthy_str (finished_utc run_open)"
  by (simp_all add: tab_running_def run_open_def new_Run_def truthy_str_def)

text \<open>
  Claim C1 does not hold of the code where an error text is reported. The exit handler
  reads the error text it is given only in the call that finds every process of the run
  with a return code. A call that finds a process of the run still without a return code
  writes its journal row and its log line and returns: whatever error text it was given,
  the tab keeps its status and its run (so the error text of the run stays unset), and
  the active runs and the processes are as before. The error text of a watcher whose
  process is not the last to exit is lost, and by the rule of the finalizing call above
  the status of the finished run then depends on the order of the exits.
\<close>

theorem exit_error_dropped:
  assumes tab: "map_of (tabs s) tid = Some tab"
    and st: "map_of (runs s) tid = Some st"
    and pending: "\<not> list_all (\<lambda>iproc. proc_returncode s (process iproc) \<noteq> None) (processes st)"
  shows "\<exists>tab'. map_of (tabs (handle_interface_process_exit E tid rid iface cid p rc err s)) tid
                  = Some tab'
           \<and> status tab' = status tab \<and> run tab' = run tab
           \<and> runs (handle_interface_process_exit E tid rid iface cid p rc err s) = runs s
           \<and> procs (handle_interface_process_exit E tid rid iface cid p rc err s) = procs s"
proof -
  let ?s' = "handle_interface_process_exit E tid rid iface cid p rc err s"
  have l: "logged E tid s ?s'" by (rule handle_exit_pending(1)[OF st pending])
  from logged_tab[OF l tab] obtain tab' where
    t: "map_of (tabs ?s') tid = Some tab'" "log_ext (max_log_entries E) tab tab'" by blast
  from t(2) have "status tab' = status tab" "run tab' = run tab" by (simp_all add: log_ext_def)
  moreover have "procs ?s' = procs s" by (rule handle_exit_pending(2)[OF st pending])
  ultimately show ?thesis using t(1) logged_runs[OF l] by blast
qed

text \<open>
  The theorem at the run of \<open>s_run\<close>: two processes that both exit with code 0, the
  watcher of \<open>eth0\<close> reporting the error text "boom" with its exit. When \<open>eth0\<close> exits first,
  the run ends completed and without error text; when it exits last, the run ends failed
  with the error text.
\<close>

theorem exit_error_dropped_witness:
  "map_of (tabs s_run) id0 = Some tab_running \<and> map_of (runs s_run) id0 = Some rt0
   \<and> map_option status (map_of (tabs (exit_eth1 None (exit_eth0 (Some ''boom'') s_run))) id0)
        = Some COMPLETED
   \<and> map_option (\<lambda>t. map_option error (run t))
        (map_of (tabs (exit_eth1 None (exit_eth0 (Some ''boom'') s_run))) id0) = Some (Some None)
   \<and> map_option status (map_of (tabs (exit_eth0 (Some ''boom'') (exit_eth1 None s_run))) id0)
        = Some FAILED
   \<and> map_option (\<lambda>t. map_option error (run t))
        (map_of (tabs (exit_eth0 (Some ''boom'') (exit_eth1 None s_run))) id0)
        = Some (Some (Some ''boom''))"
proof -
  have first:
    "\<And>h err iface cid p.
       h = 0 \<or> h = 1 \<Longrightarrow>
       \<exists>tab'. map_of (tabs (handle_interface_process_exit env0 id0 ''r1'' iface cid p (Some 0) err
                               (set_returncode h 0 s_run))) id0 = Some tab'
         \<and> run tab' = Some run_open
         \<and> runs (handle_interface_process_exit env0 id0 ''r1'' iface cid p (Some 0) err
                    (set_returncode h 0 s_run)) = runs s_run
         \<and> procs (handle_interface_process_exit env0 id0 ''r1'' iface cid p (Some 0) err
                    (set_returncode h 0 s_run)) = procs (set_returncode h 0 s_run)"
  proof -
    fix h :: nat and err :: "string option" and iface cid :: string and p :: int
    assume hk: "h = 0 \<or> h = 1"
    let ?a = "set_returncode h 0 s_run"
    have t: "map_of (tabs ?a) id0 = Some tab_running" by (simp add: s_run_facts)
    have r: "map_of (runs ?a) id0 = Some rt0" by (simp add: s_run_facts)
    have pend: "\<not> list_all (\<lambda>iproc. proc_returncode ?a (process iproc) \<noteq> None) (processes rt0)"
      using hk by (auto simp: rt0_processes proc_returncode_set s_run_facts)
    from exit_error_dropped[OF t r pend, where E = env0 and rid = "''r1''" and iface = iface
        and cid = cid and p = p and rc = "Some 0" and err = err]
    show "\<exists>tab'. map_of (tabs (handle_interface_process_exit env0 id0 ''r1'' iface cid p (Some 0) err
                               ?a)) id0 = Some tab'
         \<and> run tab' = Some run_open
         \<and> runs (handle_interface_process_exit env0 id0 ''r1'' iface cid p (Some 0) err ?a) = runs s_run
         \<and> procs (handle_interface_process_exit env0 id0 ''r1'' iface cid p (Some 0) err ?a) = procs ?a"
      by (auto simp: run_open_facts)
  qed
  have second:
    "\<And>sa tab' h k err iface cid p.
       (h = 0 \<and> k = 1) \<or> (h = 1 \<and> k = 0) \<Longrightarrow>
       map_of (tabs sa) id0 = Some tab' \<Longrightarrow> run tab' = Some run_open \<Longrightarrow>
       runs sa = runs s_run \<Longrightarrow> procs sa = procs (set_returncode h 0 s_run) \<Longrightarrow>
       \<exists>tab'' r'. map_of (tabs (handle_interface_process_exit env0 id0 ''r1'' iface cid p (Some 0) err
                               (set_returncode k 0 sa))) id0 = Some tab''
         \<and> status tab'' = (if truthy_str err then FAILED else COMPLETED)
         \<and> run tab'' = Some r' \<and> error r' = err"
  proof -
    fix sa :: state and tab' :: Tab and h k :: nat and err :: "string option" and iface cid :: string and p :: int
    assume hk: "(h = 0 \<and> k = 1) \<or> (h = 1 \<and> k = 0)"
      and t: "map_of (tabs sa) id0 = Some tab'" and r: "run tab' = Some run_open"
      and rs: "runs sa = runs s_run" and ps: "procs sa = procs (set_returncode h 0 s_run)"
    let ?b = "set_returncode k 0 sa"
    have prc: "\<And>j. proc_returncode sa j = proc_returncode (set_returncode h 0 s_run) j"
      using ps by (simp add: proc_returncode_def)
    have len: "length (procs sa) = 2" using ps by (simp add: s_run_facts)
    have c0: "proc_returncode ?b 0 = Some 0" and c1: "proc_returncode ?b (Suc 0) = Some 0"
      using hk by (auto simp: proc_returncode_set prc len s_run_facts)
    have tb: "map_of (tabs ?b) id0 = Some tab'" using t by simp
    have rb: "map_of (runs ?b) id0 = Some rt0" using rs by (simp add: s_run_facts)
    have alld: "list_all (\<lambda>iproc. proc_returncode ?b (process iproc) \<noteq> None) (processes rt0)"
      by (simp add: rt0_processes c0 c1)
    have codes: "map (\<lambda>iproc. proc_returncode ?b (process iproc)) (processes rt0) = [Some 0, Some 0]"
      by (simp add: rt0_processes c0 c1)
    from handle_exit_finalizes[OF tb r run_open_facts(2) run_open_facts(3) rb alld,
        where E = env0 and iface = iface and cid = cid and p = p and rc = "Some 0" and err = err]
    show "\<exists>tab'' r'. map_of (tabs (handle_interface_process_exit env0 id0 ''r1'' iface cid p (Some 0) err
                               ?b)) id0 = Some tab''
         \<and> status tab'' = (if truthy_str err then FAILED else COMPLETED)
         \<and> run tab'' = Some r' \<and> error r' = err"
      unfolding codes by (auto simp: any_failed_def)
  qed
  from first[where h = 0 and err = "Some ''boom''" and iface = "''eth0''" and cid = "''c0''" and p = 1000] obtain ta where
    a: "map_of (tabs (exit_eth0 (Some ''boom'') s_run)) id0 = Some ta" "run ta = Some run_open"
       "runs (exit_eth0 (Some ''boom'') s_run) = runs s_run"
       "procs (exit_eth0 (Some ''boom'') s_run) = procs (set_returncode 0 0 s_run)"
    unfolding exit_eth0_def by auto
  from second[where h = 0 and k = 1 and err = None and iface = "''eth1''" and cid = "''c1''" and p = 1001,
      OF _ a] obtain tb rb where
    b: "map_of (tabs (exit_eth1 None (exit_eth0 (Some ''boom'') s_run))) id0 = Some tb"
       "status tb = COMPLETED" "run tb = Some rb" "error rb = None"
    unfolding exit_eth1_def by (auto simp: truthy_str_def)
  from first[where h = 1 and err = None and iface = "''eth1''" and cid = "''c1''" and p = 1001] obtain tc where
    c: "map_of (tabs (exit_eth1 None s_run)) id0 = Some tc" "run tc = Some run_open"
       "runs (exit_eth1 None s_run) = runs s_run"
       "procs (exit_eth1 None s_run) = procs (set_returncode 1 0 s_run)"
    unfolding exit_eth1_def by auto
  from second[where h = 1 and k = 0 and err = "Some ''boom''" and iface = "''eth0''" and cid = "''c0''"
        and p = 1000, OF _ c] obtain td rd where
    d: "map_of (tabs (exit_eth0 (Some ''boom'') (exit_eth1 None s_run))) id0 = Some td"
       "status td = FAILED" "run td = Some rd" "error rd = Some ''boom''"
    unfolding exit_eth0_def by (auto simp: truthy_str_def)
  from b d show ?thesis by (simp add: s_run_facts)
qed


subsection \<open>C2: starting a tab that has an open run\<close>

text \<open>
  Claim C2. When the tab \<open>tid\<close> exists and the Run Executor holds a run for it,
  \<open>startTest\<close> raises \<open>TestAlreadyRunningError\<close> and leaves the whole state as it was: the
  map of active runs still holds the original run for \<open>tid\<close> and nothing else has changed.
  \<open>RunExecutor.start_test\<close> itself refuses the same call with a \<open>TestExecutionError\<close>, also
  without touching the state.
\<close>

theorem start_while_running:
  assumes "map_of (tabs s) tid = Some tab" and "map_of (runs s) tid = Some rt"
  shows "start_test_facade E tid profile' s
           = (Inl (TestAlreadyRunningError (already_running_msg tid)), s)
       \<and> start_test E log_callback tid profile' tab_name s
           = (Inl (TestExecutionError (already_running_msg tid)), s)
       \<and> map_of (runs (snd (start_test_facade E tid profile' s))) tid = Some rt
       \<and> runs (snd (start_test_facade E tid profile' s)) = runs s"
  using assms
  by (simp add: start_test_facade_def start_test_def get_tab_object_def is_running_def)

text \<open>The theorem at the running tab of \<open>s_run\<close>.\<close>

theorem start_while_running_witness:
  "map_of (tabs s_run) id0 = Some tab_running \<and> map_of (runs s_run) id0 = Some rt0
   \<and> start_test_facade env0 id0 [] s_run
         = (Inl (TestAlreadyRunningError (already_running_msg id0)), s_run)
   \<and> runs (snd (start_test_facade env0 id0 [] s_run)) = [(id0, rt0)]"
  using start_while_running[of s_run id0 tab_running rt0 env0 "[]"]
  by (simp add: s_run_def)

subsection \<open>C5: stopping a tab that has no open run\<close>

text \<open>
  Claim C5. For a tab \<open>tid\<close> that exists and has no run in the Run Executor,
  \<open>RunExecutor.stop_test\<close> answers "not stopped" and \<open>stopTest\<close> returns the stored tab,
  both without raising and without changing the state in any way (no event is broadcast
  either). After any call of \<open>stopTest\<close> on an existing tab, whatever it found, the tab has
  no run left, so every further \<open>stopTest\<close> returns the same tab and leaves the state as it
  is: \<open>n\<close> more calls give the state of the first.
\<close>

theorem stop_without_run:
  assumes tab: "map_of (tabs s) tid = Some tab"
  shows "(map_of (runs s) tid = None \<longrightarrow>
            stop_test E log_callback tid s = (NotStopped, s)
            \<and> stop_test_facade E tid s = (Inr tab, s))
       \<and> (\<exists>tab'. fst (stop_test_facade E tid s) = Inr tab'
             \<and> ((\<lambda>st. snd (stop_test_facade E tid st)) ^^ n) (snd (stop_test_facade E tid s))
                  = snd (stop_test_facade E tid s)
             \<and> stop_test_facade E tid (snd (stop_test_facade E tid s))
                  = (Inr tab', snd (stop_test_facade E tid s)))"
proof -
  let ?s' = "snd (stop_test_facade E tid s)"
  from stop_test_facade_post[OF tab, of E] obtain tab' where
    p: "map_of (runs ?s') tid = None" "map_of (tabs ?s') tid = Some tab'"
       "fst (stop_test_facade E tid s) = Inr tab'" by blast
  have again: "stop_test_facade E tid ?s' = (Inr tab', ?s')"
    using p(1,2) by (simp add: stop_test_facade_idle)
  have "((\<lambda>st. snd (stop_test_facade E tid st)) ^^ n) ?s' = ?s'"
    by (induction n) (simp_all add: again)
  with again p(3) tab show ?thesis by (auto simp: stop_test_facade_idle stop_test_None)
qed



text \<open>The theorem at the idle tab of \<open>s1\<close>, with two further calls.\<close>

theorem stop_without_run_witness:
  "map_of (tabs s1) id0 = Some tab_abc \<and> map_of (runs s1) id0 = None
   \<and> stop_test_facade env0 id0 s1 = (Inr tab_abc, s1)
   \<and> snd (stop_test_facade env0 id0 (snd (stop_test_facade env0 id0 (snd (stop_test_facade env0 id0 s1)))))
       = s1"
proof -
  have r: "runs s1 = []"
    by (simp add: demo_defs tab_defs)
  have t: "map_of (tabs s1) id0 = Some tab_abc"
    by (simp add: s1_tabs)
  from stop_without_run[OF t, where E = env0 and n = 2] r t show ?thesis
    by (auto simp: numeral_2_eq_2)
qed

subsection \<open>C10: the default title\<close>








end
